theory Spec2Isabelle
  imports Complex_Main "HOL-Library.Word" "HOL-Library.Sublist"
begin

section \<open>JavaScript strings\<close>

text \<open>
  A JavaScript string is a sequence of UTF-16 code units: \<open>length\<close> counts code units
  and \<open>charCodeAt\<close> reads one. Literals of the source are ASCII and written with
  \<open>ascii\<close>.
\<close>

type_synonym jsstring = "16 word list"

definition ascii :: "string \<Rightarrow> jsstring" where
  "ascii s = map of_char s"

text \<open>
  The code units that \<open>String.prototype.trim\<close> removes and that the regular
  expression class \<open>\s\<close> matches: ECMAScript's WhiteSpace and LineTerminator.
\<close>

definition isWhiteSpace :: "16 word \<Rightarrow> bool" where
  "isWhiteSpace c =
     (c = 0x09 \<or> c = 0x0A \<or> c = 0x0B \<or> c = 0x0C \<or> c = 0x0D \<or> c = 0x20 \<or> c = 0xA0
      \<or> c = 0x1680 \<or> (0x2000 \<le> c \<and> c \<le> 0x200A) \<or> c = 0x2028 \<or> c = 0x2029
      \<or> c = 0x202F \<or> c = 0x205F \<or> c = 0x3000 \<or> c = 0xFEFF)"

definition trimStart :: "jsstring \<Rightarrow> jsstring" where
  "trimStart s = dropWhile isWhiteSpace s"

definition trimEnd :: "jsstring \<Rightarrow> jsstring" where
  "trimEnd s = rev (dropWhile isWhiteSpace (rev s))"

definition trim :: "jsstring \<Rightarrow> jsstring" where
  "trim s = trimEnd (trimStart s)"

text \<open>\<open>s.includes(pat)\<close>: \<open>pat\<close> occurs in \<open>s\<close> as a contiguous run.\<close>

fun includes_str :: "jsstring \<Rightarrow> jsstring \<Rightarrow> bool" where
  "includes_str [] pat = (pat = [])"
| "includes_str (c # cs) pat = (prefix pat (c # cs) \<or> includes_str cs pat)"

text \<open>\<open>xs.join(sep)\<close> on an array of strings.\<close>

fun join :: "jsstring \<Rightarrow> jsstring list \<Rightarrow> jsstring" where
  "join sep [] = []"
| "join sep [x] = x"
| "join sep (x # y # ys) = x @ sep @ join sep (y # ys)"

text \<open>
  \<open>str.replace(pattern, replacement)\<close> with a string pattern replaces the first
  occurrence only, and expands in the replacement the patterns \<open>$$\<close>, \<open>$&\<close>,
  \<open>$`\<close> and \<open>$'\<close> (there are no captures, so \<open>$1\<close> and \<open>$<\<close> stay as written).
  \<open>findFirst\<close> returns the text before and after the first occurrence.
\<close>

fun findFirst :: "jsstring \<Rightarrow> jsstring \<Rightarrow> (jsstring \<times> jsstring) option" where
  "findFirst pat [] = (if pat = [] then Some ([], []) else None)"
| "findFirst pat (c # cs) =
     (if prefix pat (c # cs) then Some ([], drop (length pat) (c # cs))
      else (case findFirst pat cs of
              None \<Rightarrow> None
            | Some (pre, post) \<Rightarrow> Some (c # pre, post)))"

fun getSubstitution :: "jsstring \<Rightarrow> jsstring \<Rightarrow> jsstring \<Rightarrow> jsstring \<Rightarrow> jsstring" where
  "getSubstitution matched pre post [] = []"
| "getSubstitution matched pre post [c] = [c]"
| "getSubstitution matched pre post (c # d # rest) =
     (if c = 0x24 \<and> d = 0x24 then 0x24 # getSubstitution matched pre post rest
      else if c = 0x24 \<and> d = 0x26 then matched @ getSubstitution matched pre post rest
      else if c = 0x24 \<and> d = 0x60 then pre @ getSubstitution matched pre post rest
      else if c = 0x24 \<and> d = 0x27 then post @ getSubstitution matched pre post rest
      else c # getSubstitution matched pre post (d # rest))"

definition replace :: "jsstring \<Rightarrow> jsstring \<Rightarrow> jsstring \<Rightarrow> jsstring" where
  "replace str pat replacement =
     (case findFirst pat str of
        None \<Rightarrow> str
      | Some (pre, post) \<Rightarrow>
          pre @ getSubstitution pat pre post replacement @ post)"

text \<open>The decimal digits of a non-negative integer, as a template literal prints it.\<close>

fun showNat :: "nat \<Rightarrow> jsstring" where
  "showNat n = (if n < 10 then [0x30 + of_nat n]
                else showNat (n div 10) @ [0x30 + of_nat (n mod 10)])"

declare showNat.simps [simp del]

section \<open>workflows/generate-brief.ts: inputs, validation, sanitization\<close>

text \<open>
  \<open>CreatorBriefInput\<close>: an optional field is \<open>None\<close> when the caller leaves it
  undefined.
\<close>

record CreatorBriefInput =
  productDescription :: jsstring
  targetAudience :: jsstring
  campaignGoals :: "jsstring option"
  budget :: "jsstring option"
  platforms :: "jsstring list option"
  timeframe :: "jsstring option"
  userId :: "jsstring option"

text \<open>
  The six local variables that the parameter destructuring of \<open>generateCreatorBrief\<close>
  binds, defaults applied; this is the object handed to \<open>createCacheKey\<close> and
  \<open>buildPrompt\<close> (it has no \<open>userId\<close>).
\<close>

record BriefFields =
  productDescription' :: jsstring
  targetAudience' :: jsstring
  campaignGoals' :: jsstring
  budget' :: jsstring
  platforms' :: "jsstring list"
  timeframe' :: jsstring

definition withDefaults :: "CreatorBriefInput \<Rightarrow> BriefFields" where
  "withDefaults i =
     \<lparr> productDescription' = productDescription i,
       targetAudience' = targetAudience i,
       campaignGoals' = (case campaignGoals i of
          None \<Rightarrow> ascii ''Increase brand awareness and drive conversions'' | Some g \<Rightarrow> g),
       budget' = (case budget i of None \<Rightarrow> ascii ''Not specified'' | Some b \<Rightarrow> b),
       platforms' = (case platforms i of
          None \<Rightarrow> [ascii ''Instagram'', ascii ''TikTok''] | Some ps \<Rightarrow> ps),
       timeframe' = (case timeframe i of None \<Rightarrow> ascii ''30 days'' | Some t \<Rightarrow> t) \<rparr>"

text \<open>\<open>validateInputs\<close>: \<open>Inl\<close> carries the message of the thrown \<open>Error\<close>.\<close>

definition validateInputs :: "jsstring \<Rightarrow> jsstring \<Rightarrow> jsstring + unit" where
  "validateInputs pd ta =
     (if trim pd = [] then
        Inl (ascii ''Product description is required and cannot be empty'')
      else if trim ta = [] then
        Inl (ascii ''Target audience is required and cannot be empty'')
      else if length pd > 1000 then
        Inl (ascii ''Product description must be less than 1000 characters'')
      else if length ta > 500 then
        Inl (ascii ''Target audience must be less than 500 characters'')
      else Inr ())"

text \<open>
  \<open>sanitizeInput\<close>: the four global replacements, in the order of the source.
  Each replaces every match of a one-character class by a fixed text, except the
  third, which replaces a maximal run of newlines by one space.
\<close>

definition removeAngleBrackets :: "jsstring \<Rightarrow> jsstring" where
  "removeAngleBrackets s = filter (\<lambda>c. c \<noteq> 0x3C \<and> c \<noteq> 0x3E) s"

function collapseNewlines :: "jsstring \<Rightarrow> jsstring" where
  "collapseNewlines [] = []"
| "collapseNewlines (c # cs) =
     (if c = 0x0A then 0x20 # collapseNewlines (dropWhile (\<lambda>d. d = 0x0A) cs)
      else c # collapseNewlines cs)"
  by pat_completeness auto
termination
  by (relation "measure length") (auto simp: length_dropWhile_le le_imp_less_Suc)

definition escapeQuotes :: "jsstring \<Rightarrow> jsstring" where
  "escapeQuotes s = concat (map (\<lambda>c. if c = 0x22 then [0x5C, 0x22] else [c]) s)"

definition escapeBackslashes :: "jsstring \<Rightarrow> jsstring" where
  "escapeBackslashes s = concat (map (\<lambda>c. if c = 0x5C then [0x5C, 0x5C] else [c]) s)"

definition sanitizeInput :: "jsstring \<Rightarrow> jsstring" where
  "sanitizeInput input =
     escapeBackslashes (escapeQuotes (collapseNewlines (removeAngleBrackets (trim input))))"

section \<open>workflows/generate-brief.ts: the cache key\<close>

text \<open>
  \<open>JSON.stringify\<close> of the six fields. A string is quoted as QuoteJSONString does:
  the short escapes, \<open>\uXXXX\<close> for the other control characters and for a surrogate
  that is not part of a pair, everything else as it is.
\<close>

definition hexDigit :: "nat \<Rightarrow> 16 word" where
  "hexDigit n = (if n < 10 then 0x30 + of_nat n else 0x57 + of_nat n)"

definition unicodeEscape :: "16 word \<Rightarrow> jsstring" where
  "unicodeEscape c =
     [0x5C, 0x75, hexDigit (unat c div 4096), hexDigit (unat c div 256 mod 16),
      hexDigit (unat c div 16 mod 16), hexDigit (unat c mod 16)]"

definition isHighSurrogate :: "16 word \<Rightarrow> bool" where
  "isHighSurrogate c = (0xD800 \<le> c \<and> c \<le> 0xDBFF)"

definition isLowSurrogate :: "16 word \<Rightarrow> bool" where
  "isLowSurrogate c = (0xDC00 \<le> c \<and> c \<le> 0xDFFF)"

fun quoteJSONChars :: "jsstring \<Rightarrow> jsstring" where
  "quoteJSONChars [] = []"
| "quoteJSONChars (c # cs) =
     (if c = 0x08 then [0x5C, 0x62] @ quoteJSONChars cs
      else if c = 0x09 then [0x5C, 0x74] @ quoteJSONChars cs
      else if c = 0x0A then [0x5C, 0x6E] @ quoteJSONChars cs
      else if c = 0x0C then [0x5C, 0x66] @ quoteJSONChars cs
      else if c = 0x0D then [0x5C, 0x72] @ quoteJSONChars cs
      else if c = 0x22 then [0x5C, 0x22] @ quoteJSONChars cs
      else if c = 0x5C then [0x5C, 0x5C] @ quoteJSONChars cs
      else if c < 0x20 then unicodeEscape c @ quoteJSONChars cs
      else if isHighSurrogate c then
        (case cs of
           [] \<Rightarrow> unicodeEscape c
         | d # ds \<Rightarrow>
             if isLowSurrogate d then c # d # quoteJSONChars ds
             else unicodeEscape c @ quoteJSONChars cs)
      else if isLowSurrogate c then unicodeEscape c @ quoteJSONChars cs
      else c # quoteJSONChars cs)"

definition quoteJSONString :: "jsstring \<Rightarrow> jsstring" where
  "quoteJSONString s = [0x22] @ quoteJSONChars s @ [0x22]"

definition stringifyInputs :: "BriefFields \<Rightarrow> jsstring" where
  \<open>stringifyInputs inputs =
     ascii ''{"productDescription":'' @ quoteJSONString (productDescription' inputs)
     @ ascii '',"targetAudience":'' @ quoteJSONString (targetAudience' inputs)
     @ ascii '',"campaignGoals":'' @ quoteJSONString (campaignGoals' inputs)
     @ ascii '',"budget":'' @ quoteJSONString (budget' inputs)
     @ ascii '',"platforms":['' @ join [0x2C] (map quoteJSONString (platforms' inputs))
     @ ascii ''],"timeframe":'' @ quoteJSONString (timeframe' inputs)
     @ ascii ''}''\<close>

text \<open>
  The hash loop. \<open>hash << 5\<close>, the subtraction, the addition and \<open>hash & hash\<close>
  are exact on integers and end in a conversion to a signed 32-bit integer, so one
  round is arithmetic modulo \<open>2 ^ 32\<close>. \<open>Math.abs\<close> is taken of the signed value.
\<close>

definition hashStep :: "32 word \<Rightarrow> 16 word \<Rightarrow> 32 word" where
  "hashStep hash char = (push_bit 5 hash - hash) + ucast char"

definition hashString :: "jsstring \<Rightarrow> 32 word" where
  "hashString keyData = foldl hashStep 0 keyData"

definition createCacheKey :: "BriefFields \<Rightarrow> jsstring" where
  "createCacheKey inputs =
     ascii ''brief_'' @ showNat (nat \<bar>sint (hashString (stringifyInputs inputs))\<bar>)"

section \<open>workflows/generate-brief.ts: the prompt\<close>

definition BRIEF_GENERATION_PROMPT_TEMPLATE :: jsstring where
  \<open>BRIEF_GENERATION_PROMPT_TEMPLATE = join [0x0A]
    [[],
     ascii ''<persona>'',
     ascii ''You are "CreatorBrief AI," an expert viral marketing strategist with 10+ years of experience in influencer marketing, content creation, and brand partnerships. You specialize in creating data-driven campaign briefs that maximize engagement and conversion rates across all social media platforms.'',
     ascii ''</persona>'',
     [],
     ascii ''<instructions>'',
     ascii ''Your task is to generate a comprehensive creator campaign brief based exclusively on the product information provided in the <context> tags below. '',
     [],
     ascii ''The brief should include:'',
     ascii ''1. Campaign objectives with measurable KPIs'',
     ascii ''2. Content format recommendations (video, carousel, stories, etc.)'',
     ascii ''3. Platform-specific strategies'',
     ascii ''4. Messaging pillars and key talking points'',
     ascii ''5. Creative direction and visual guidelines'',
     ascii ''6. Timeline and deliverables'',
     ascii ''7. Performance benchmarks'',
     [],
     ascii ''Focus on creating actionable, specific guidance that creators can immediately implement.'',
     ascii ''</instructions>'',
     [],
     ascii ''<output_format>'',
     ascii ''Return ONLY a valid JSON object with this exact structure (no markdown formatting, no additional text):'',
     [],
     ascii ''{'',
     ascii ''  "campaignTitle": "string",'',
     ascii ''  "objective": "string",'',
     ascii ''  "platforms": ["string"],'',
     ascii ''  "contentFormats": ["string"],'',
     ascii ''  "messagingPillars": ["string"],'',
     ascii ''  "creativeDirection": {'',
     ascii ''    "visualStyle": "string",'',
     ascii ''    "toneOfVoice": "string",'',
     ascii ''    "mustHaveElements": ["string"]'',
     ascii ''  },'',
     ascii ''  "deliverables": {'',
     ascii ''    "primaryContent": number,'',
     ascii ''    "stories": number,'',
     ascii ''    "timeline": "string"'',
     ascii ''  },'',
     ascii ''  "kpis": {'',
     ascii ''    "primaryMetric": "string",'',
     ascii ''    "targetEngagementRate": "string",'',
     ascii ''    "expectedReach": "string"'',
     ascii ''  },'',
     ascii ''  "callToAction": "string",'',
     ascii ''  "complianceNotes": ["string"],'',
     ascii ''  "hashtags": ["string"],'',
     ascii ''  "budgetRecommendations": {'',
     ascii ''    "creatorFee": "string",'',
     ascii ''    "adSpend": "string"'',
     ascii ''  }'',
     ascii ''}'',
     ascii ''</output_format>'',
     [],
     ascii ''<rules>'',
     ascii ''- Base all recommendations on the provided product and audience data'',
     ascii ''- Ensure platform-specific optimization (Instagram vs TikTok vs YouTube)'',
     ascii ''- Include FTC compliance guidelines for sponsored content'',
     ascii ''- Provide specific, actionable creative direction'',
     ascii ''- Set realistic but ambitious performance targets'',
     ascii ''- Consider seasonal trends and current social media best practices'',
     ascii ''- Generate relevant hashtags for each platform'',
     ascii ''- Output ONLY valid JSON - no additional text or formatting'',
     ascii ''- Ensure all string values are properly escaped for JSON'',
     ascii ''</rules>'',
     [],
     ascii ''<context>'',
     ascii ''  <productDescription>'',
     ascii ''    {{productDescription}}'',
     ascii ''  </productDescription>'',
     ascii ''  <targetAudience>'',
     ascii ''    {{targetAudience}}'',
     ascii ''  </targetAudience>'',
     ascii ''  <campaignGoals>'',
     ascii ''    {{campaignGoals}}'',
     ascii ''  </campaignGoals>'',
     ascii ''  <budget>'',
     ascii ''    {{budget}}'',
     ascii ''  </budget>'',
     ascii ''  <platforms>'',
     ascii ''    {{platforms}}'',
     ascii ''  </platforms>'',
     ascii ''  <timeframe>'',
     ascii ''    {{timeframe}}'',
     ascii ''  </timeframe>'',
     ascii ''</context>'',
     []]\<close>

definition buildPrompt :: "BriefFields \<Rightarrow> jsstring" where
  "buildPrompt inputs =
     replace (replace (replace (replace (replace (replace BRIEF_GENERATION_PROMPT_TEMPLATE
       (ascii ''{{productDescription}}'') (sanitizeInput (productDescription' inputs)))
       (ascii ''{{targetAudience}}'') (sanitizeInput (targetAudience' inputs)))
       (ascii ''{{campaignGoals}}'') (sanitizeInput (campaignGoals' inputs)))
       (ascii ''{{budget}}'') (sanitizeInput (budget' inputs)))
       (ascii ''{{platforms}}'') (join (ascii '', '') (platforms' inputs)))
       (ascii ''{{timeframe}}'') (sanitizeInput (timeframe' inputs))"

section \<open>workflows/generate-brief.ts: parsing and validating the response\<close>

text \<open>
  The values \<open>JSON.parse\<close> can return. A number is the exact value of the double, or
  an infinity for a literal that overflows. An object is the list of its own
  properties, one entry per key, in insertion order.
\<close>

datatype jsnumber = Finite rat | PosInfinity | NegInfinity

datatype json =
    JNull
  | JBool bool
  | JNumber jsnumber
  | JString jsstring
  | JArray "json list"
  | JObject "(jsstring \<times> json) list"

text \<open>
  \<open>briefObj[field]\<close> for the field names the validation reads: \<open>None\<close> is
  \<open>undefined\<close>. None of these names is a property of arrays or of
  \<open>Object.prototype\<close>, so only an object's own properties answer.
\<close>

definition getProperty :: "json \<Rightarrow> jsstring \<Rightarrow> json option" where
  "getProperty v field = (case v of JObject kvs \<Rightarrow> map_of kvs field | _ \<Rightarrow> None)"

text \<open>JavaScript truthiness, \<open>typeof v === 'object'\<close> and \<open>Array.isArray\<close>.\<close>

definition truthy :: "json option \<Rightarrow> bool" where
  "truthy v =
     (case v of
        None \<Rightarrow> False
      | Some JNull \<Rightarrow> False
      | Some (JBool b) \<Rightarrow> b
      | Some (JNumber n) \<Rightarrow> n \<noteq> Finite 0
      | Some (JString s) \<Rightarrow> s \<noteq> []
      | Some (JArray xs) \<Rightarrow> True
      | Some (JObject kvs) \<Rightarrow> True)"

definition typeofObject :: "json option \<Rightarrow> bool" where
  "typeofObject v =
     (case v of
        Some JNull \<Rightarrow> True
      | Some (JArray xs) \<Rightarrow> True
      | Some (JObject kvs) \<Rightarrow> True
      | _ \<Rightarrow> False)"

definition isNonEmptyArray :: "json option \<Rightarrow> bool" where
  "isNonEmptyArray v = (case v of Some (JArray xs) \<Rightarrow> xs \<noteq> [] | _ \<Rightarrow> False)"

text \<open>
  The three replacements that remove a Markdown code fence. Each is anchored, so it
  applies at most once: \<open>/^```json\s*/i\<close>, \<open>/\s*```$/\<close> and \<open>/^```\s*/\<close>.
\<close>

definition fence :: jsstring where
  "fence = [0x60, 0x60, 0x60]"

definition stripJsonFence :: "jsstring \<Rightarrow> jsstring" where
  "stripJsonFence s =
     (case s of
        b1 # b2 # b3 # cj # cs # co # cn # rest \<Rightarrow>
          if b1 = 0x60 \<and> b2 = 0x60 \<and> b3 = 0x60
             \<and> (cj = 0x6A \<or> cj = 0x4A) \<and> (cs = 0x73 \<or> cs = 0x53)
             \<and> (co = 0x6F \<or> co = 0x4F) \<and> (cn = 0x6E \<or> cn = 0x4E)
          then dropWhile isWhiteSpace rest
          else s
      | _ \<Rightarrow> s)"

definition stripTrailingFence :: "jsstring \<Rightarrow> jsstring" where
  "stripTrailingFence s =
     (if suffix fence s then trimEnd (take (length s - 3) s) else s)"

definition stripLeadingFence :: "jsstring \<Rightarrow> jsstring" where
  "stripLeadingFence s =
     (if prefix fence s then dropWhile isWhiteSpace (drop 3 s) else s)"

definition cleanResponse :: "jsstring \<Rightarrow> jsstring" where
  "cleanResponse response =
     trim (stripLeadingFence (stripTrailingFence (stripJsonFence (trim response))))"

definition requiredFields :: "jsstring list" where
  "requiredFields =
     [ascii ''campaignTitle'', ascii ''objective'', ascii ''platforms'',
      ascii ''contentFormats'', ascii ''messagingPillars'']"

definition arrayFields :: "jsstring list" where
  "arrayFields = [ascii ''platforms'', ascii ''contentFormats'', ascii ''messagingPillars'']"

text \<open>The two \<open>for\<close> loops: the message of the first field that fails, if any.\<close>

fun checkRequired :: "json \<Rightarrow> jsstring list \<Rightarrow> jsstring option" where
  "checkRequired briefObj [] = None"
| "checkRequired briefObj (field # more_fields) =
     (if \<not> truthy (getProperty briefObj field)
      then Some (ascii ''Missing required field in AI response: '' @ field)
      else checkRequired briefObj more_fields)"

fun checkArrays :: "json \<Rightarrow> jsstring list \<Rightarrow> jsstring option" where
  "checkArrays briefObj [] = None"
| "checkArrays briefObj (field # more_fields) =
     (if \<not> isNonEmptyArray (getProperty briefObj field)
      then Some (field @ ascii '' must be a non-empty array'')
      else checkArrays briefObj more_fields)"

definition isObjectValue :: "json option \<Rightarrow> bool" where
  "isObjectValue v = (truthy v \<and> typeofObject v)"

text \<open>
  Everything after \<open>JSON.parse\<close> has returned \<open>brief\<close>.
\<close>

definition validateStructure :: "json \<Rightarrow> jsstring + json" where
  "validateStructure brief =
     (if \<not> isObjectValue (Some brief) then
        Inl (ascii ''AI response must be a valid object'')
      else case checkRequired brief requiredFields of
        Some msg \<Rightarrow> Inl msg
      | None \<Rightarrow>
         (case checkArrays brief arrayFields of
            Some msg \<Rightarrow> Inl msg
          | None \<Rightarrow>
             if \<not> isObjectValue (getProperty brief (ascii ''creativeDirection'')) then
               Inl (ascii ''creativeDirection must be an object'')
             else if \<not> isObjectValue (getProperty brief (ascii ''deliverables'')) then
               Inl (ascii ''deliverables must be an object'')
             else if \<not> isObjectValue (getProperty brief (ascii ''kpis'')) then
               Inl (ascii ''kpis must be an object'')
             else Inr brief))"

text \<open>
  \<open>parseAndValidateResponse\<close>. \<open>JSON.parse\<close> is the language's, not the
  repository's: it is the parameter \<open>JSON_parse\<close>, \<open>None\<close> where it throws a
  SyntaxError.
\<close>

definition parseAndValidateResponse ::
  "(jsstring \<Rightarrow> json option) \<Rightarrow> jsstring \<Rightarrow> jsstring + json" where
  "parseAndValidateResponse JSON_parse response =
     (case JSON_parse (cleanResponse response) of
        None \<Rightarrow> Inl (ascii ''Invalid JSON response from AI service'')
      | Some brief \<Rightarrow> validateStructure brief)"

section \<open>lib/ai-service.ts: the provider adapter\<close>

text \<open>
  The three SDK clients are external. A call either throws (\<open>Some m\<close> for an
  \<open>Error\<close> with message \<open>m\<close>, \<open>None\<close> for any other thrown value; this covers
  an exception raised while the reply is taken apart) or returns what the adapter
  reads from the reply: OpenAI's \<open>choices[0]?.message?.content\<close> (\<open>None\<close> when
  null or undefined), Anthropic's first content block, Gemini's \<open>response.text()\<close>.
  A client may answer a repeated call differently, so its first argument is the
  number of calls already made to it while one completion is served. Each adapter
  function of the source calls its client once: it reads the reply at 0, and a
  second attempt would read the reply at 1.
\<close>

datatype 'a sdk_result = Threw "jsstring option" | Returned 'a

datatype content_block = TextBlock jsstring | OtherBlock

record sdk =
  openai_create :: "nat \<Rightarrow> jsstring \<Rightarrow> jsstring \<Rightarrow> jsstring option sdk_result"
  anthropic_create :: "nat \<Rightarrow> jsstring \<Rightarrow> content_block sdk_result"
  gemini_generateContent :: "nat \<Rightarrow> jsstring \<Rightarrow> jsstring sdk_result"

text \<open>\<open>config.provider\<close>: the environment can hold any string.\<close>

datatype provider = OpenAI | Anthropic | Gemini | Unsupported jsstring

definition systemPrompt :: jsstring where
  "systemPrompt = ascii ''You are a professional marketing strategist. Always respond with valid JSON only, no additional formatting or text.''"

definition generateOpenAICompletion :: "sdk \<Rightarrow> jsstring \<Rightarrow> jsstring option + jsstring" where
  "generateOpenAICompletion k prompt =
     (case openai_create k 0 systemPrompt prompt of
        Threw e \<Rightarrow> Inl e
      | Returned None \<Rightarrow> Inl (Some (ascii ''No response generated from OpenAI''))
      | Returned (Some content) \<Rightarrow>
          if content = [] then Inl (Some (ascii ''No response generated from OpenAI''))
          else Inr (trim content))"

definition generateAnthropicCompletion :: "sdk \<Rightarrow> jsstring \<Rightarrow> jsstring option + jsstring" where
  "generateAnthropicCompletion k prompt =
     (case anthropic_create k 0 prompt of
        Threw e \<Rightarrow> Inl e
      | Returned OtherBlock \<Rightarrow> Inl (Some (ascii ''Unexpected response type from Anthropic''))
      | Returned (TextBlock t) \<Rightarrow> Inr (trim t))"

definition generateGeminiCompletion :: "sdk \<Rightarrow> jsstring \<Rightarrow> jsstring option + jsstring" where
  "generateGeminiCompletion k prompt =
     (case gemini_generateContent k 0 (systemPrompt @ [0x0A, 0x0A] @ prompt) of
        Threw e \<Rightarrow> Inl e
      | Returned content \<Rightarrow>
          if content = [] then Inl (Some (ascii ''No response generated from Gemini''))
          else Inr (trim content))"

text \<open>\<open>AIService.generateCompletion\<close>: the \<open>switch\<close> and the \<open>catch\<close> around it.\<close>

definition generateCompletion :: "provider \<Rightarrow> sdk \<Rightarrow> jsstring \<Rightarrow> jsstring + jsstring" where
  "generateCompletion p k prompt =
     (case (case p of
              OpenAI \<Rightarrow> generateOpenAICompletion k prompt
            | Anthropic \<Rightarrow> generateAnthropicCompletion k prompt
            | Gemini \<Rightarrow> generateGeminiCompletion k prompt
            | Unsupported name \<Rightarrow> Inl (Some (ascii ''Unsupported AI provider: '' @ name))) of
        Inl e \<Rightarrow>
          Inl (ascii ''AI service failed: ''
               @ (case e of Some m \<Rightarrow> m | None \<Rightarrow> ascii ''Unknown error occurred''))
      | Inr content \<Rightarrow> Inr content)"

section \<open>lib/ai-service.ts: cache and rate limiter\<close>

record CacheEntry =
  data :: jsstring
  timestamp :: int

text \<open>
  The two private maps of \<open>AIServiceWithCache\<close>. \<open>completions\<close> is a ghost
  counter, not in the source: how many times \<open>generateCompletion\<close> has been
  invoked through this object.
\<close>

record AIServiceWithCache =
  cache :: "jsstring \<rightharpoonup> CacheEntry"
  rateLimiter :: "jsstring \<rightharpoonup> int list"
  completions :: nat

definition newService :: AIServiceWithCache where
  "newService = \<lparr> cache = Map.empty, rateLimiter = Map.empty, completions = 0 \<rparr>"

text \<open>
  \<open>Date.now()\<close> is read four times in one call, twice before and twice after the
  provider is awaited. The readings are parameters; nothing is assumed about them.
\<close>

record clock =
  atCacheCheck :: int
  atRateCheck :: int
  atCacheStore :: int
  atRateRecord :: int

definition isCacheValid :: "AIServiceWithCache \<Rightarrow> jsstring \<Rightarrow> int \<Rightarrow> bool" where
  "isCacheValid s key now =
     (case cache s key of
        None \<Rightarrow> False
      | Some cached \<Rightarrow> now - timestamp cached < 3600000)"

definition requestsOf :: "AIServiceWithCache \<Rightarrow> jsstring \<Rightarrow> int list" where
  "requestsOf s key = (case rateLimiter s key of None \<Rightarrow> [] | Some requests \<Rightarrow> requests)"

definition isRateLimited :: "AIServiceWithCache \<Rightarrow> jsstring \<Rightarrow> int \<Rightarrow> bool" where
  "isRateLimited s key now =
     (let oneHourAgo = now - 3600000;
          recentRequests = filter (\<lambda>stamp. stamp > oneHourAgo) (requestsOf s key)
      in length recentRequests \<ge> 10)"

definition updateRateLimit :: "AIServiceWithCache \<Rightarrow> jsstring \<Rightarrow> int \<Rightarrow> AIServiceWithCache" where
  "updateRateLimit s key now =
     s\<lparr> rateLimiter := (rateLimiter s)(key \<mapsto> requestsOf s key @ [now]) \<rparr>"

text \<open>
  An optional string argument is truthy when it is given and not empty.
\<close>

definition given :: "jsstring option \<Rightarrow> bool" where
  "given k = (case k of None \<Rightarrow> False | Some key \<Rightarrow> key \<noteq> [])"

text \<open>
  \<open>generateCompletionWithCache\<close>: the result (\<open>Inl\<close> the message of the thrown
  \<open>Error\<close>) and the object's state afterwards. \<open>the\<close> reads a key under the
  guard \<open>given\<close>, and the cache entry under \<open>isCacheValid\<close>, as the source's
  \<open>this.cache.get(cacheKey)!\<close> does. A call is modelled as running from its first
  line to its last without another call of the same object in between: calls that
  overlap while the provider is awaited are outside this model.
\<close>

definition generateCompletionWithCache ::
  "provider \<Rightarrow> sdk \<Rightarrow> clock \<Rightarrow> jsstring \<Rightarrow> jsstring option \<Rightarrow> jsstring option
     \<Rightarrow> AIServiceWithCache \<Rightarrow> (jsstring + jsstring) \<times> AIServiceWithCache" where
  "generateCompletionWithCache p k clk prompt cacheKey rateLimitKey s =
     (if given cacheKey \<and> isCacheValid s (the cacheKey) (atCacheCheck clk) then
        (Inr (data (the (cache s (the cacheKey)))), s)
      else if given rateLimitKey \<and> isRateLimited s (the rateLimitKey) (atRateCheck clk) then
        (Inl (ascii ''Rate limit exceeded. Please try again later.''), s)
      else
        (case generateCompletion p k prompt of
           Inl e \<Rightarrow> (Inl e, s\<lparr> completions := completions s + 1 \<rparr>)
         | Inr result \<Rightarrow>
             (let s1 = s\<lparr> completions := completions s + 1 \<rparr>;
                  s2 = (if given cacheKey
                        then s1\<lparr> cache := (cache s1)(the cacheKey \<mapsto>
                               \<lparr> data = result, timestamp = atCacheStore clk \<rparr>) \<rparr>
                        else s1);
                  s3 = (if given rateLimitKey
                        then updateRateLimit s2 (the rateLimitKey) (atRateRecord clk)
                        else s2)
              in (Inr result, s3))))"

section \<open>workflows/generate-brief.ts: the workflow\<close>

text \<open>The \<open>catch\<close> block of \<open>generateCreatorBrief\<close>: the message it rethrows.\<close>

definition catchBlock :: "jsstring \<Rightarrow> jsstring" where
  "catchBlock errorMessage =
     (if includes_str errorMessage (ascii ''Rate limit exceeded'') then
        ascii ''Too many requests. Please try again in an hour.''
      else if includes_str errorMessage (ascii ''JSON'') then
        ascii ''Failed to process AI response. Please try again.''
      else ascii ''Failed to generate creator brief: '' @ errorMessage)"

text \<open>The \<open>try\<close> block, then the whole function.\<close>

definition tryBlock ::
  "(jsstring \<Rightarrow> json option) \<Rightarrow> provider \<Rightarrow> sdk \<Rightarrow> clock \<Rightarrow> CreatorBriefInput
     \<Rightarrow> AIServiceWithCache \<Rightarrow> (jsstring + json) \<times> AIServiceWithCache" where
  "tryBlock JSON_parse p k clk i s =
     (case validateInputs (productDescription i) (targetAudience i) of
        Inl e \<Rightarrow> (Inl e, s)
      | Inr u \<Rightarrow>
         (case generateCompletionWithCache p k clk (buildPrompt (withDefaults i))
                 (Some (createCacheKey (withDefaults i))) (userId i) s of
            (Inl e, s') \<Rightarrow> (Inl e, s')
          | (Inr response, s') \<Rightarrow> (parseAndValidateResponse JSON_parse response, s')))"

definition generateCreatorBrief ::
  "(jsstring \<Rightarrow> json option) \<Rightarrow> provider \<Rightarrow> sdk \<Rightarrow> clock \<Rightarrow> CreatorBriefInput
     \<Rightarrow> AIServiceWithCache \<Rightarrow> (jsstring + json) \<times> AIServiceWithCache" where
  "generateCreatorBrief JSON_parse p k clk i s =
     (case tryBlock JSON_parse p k clk i s of
        (Inl e, s') \<Rightarrow> (Inl (catchBlock e), s')
      | (Inr brief, s') \<Rightarrow> (Inr brief, s'))"

section \<open>Runs of requests\<close>

text \<open>
  A run of requests of one caller through one service object. A request is the SDK
  and the clock it meets, its prompt and its fingerprint. Each outcome says whether
  the request was a cache hit, and what \<open>generateCompletionWithCache\<close> returned.
\<close>

type_synonym request = "sdk \<times> clock \<times> jsstring \<times> jsstring option"

definition isCacheHit :: "AIServiceWithCache \<Rightarrow> jsstring option \<Rightarrow> clock \<Rightarrow> bool" where
  "isCacheHit s cacheKey clk =
     (given cacheKey \<and> isCacheValid s (the cacheKey) (atCacheCheck clk))"

definition recordedAt :: "request \<Rightarrow> int" where
  "recordedAt r = (case r of (k, clk, prompt, cacheKey) \<Rightarrow> atRateRecord clk)"

definition inWindowOf :: "request \<Rightarrow> int \<Rightarrow> bool" where
  "inWindowOf r t = (case r of (k, clk, prompt, cacheKey) \<Rightarrow> atRateCheck clk - 3600000 < t)"

definition providerAnswers :: "provider \<Rightarrow> request \<Rightarrow> bool" where
  "providerAnswers p r =
     (case r of (k, clk, prompt, cacheKey) \<Rightarrow>
        (case generateCompletion p k prompt of Inl e \<Rightarrow> False | Inr text \<Rightarrow> True))"

fun serve ::
  "provider \<Rightarrow> jsstring option \<Rightarrow> request list \<Rightarrow> AIServiceWithCache
     \<Rightarrow> (bool \<times> (jsstring + jsstring)) list \<times> AIServiceWithCache" where
  "serve p caller [] s = ([], s)"
| "serve p caller ((k, clk, prompt, cacheKey) # requests) s =
     (case generateCompletionWithCache p k clk prompt cacheKey caller s of
        (r, s1) \<Rightarrow>
          (case serve p caller requests s1 of
             (rs, s2) \<Rightarrow> ((isCacheHit s cacheKey clk, r) # rs, s2)))"

definition answered :: "jsstring + jsstring \<Rightarrow> bool" where
  "answered r = (case r of Inl e \<Rightarrow> False | Inr text \<Rightarrow> True)"

definition rateLimitMessage :: jsstring where
  "rateLimitMessage = ascii ''Rate limit exceeded. Please try again later.''"

text \<open>The four messages \<open>validateInputs\<close> can throw.\<close>

definition validationMessages :: "jsstring list" where
  "validationMessages =
     [ascii ''Product description is required and cannot be empty'',
      ascii ''Target audience is required and cannot be empty'',
      ascii ''Product description must be less than 1000 characters'',
      ascii ''Target audience must be less than 500 characters'']"

section \<open>The specification's wording\<close>

text \<open>
  What the specification's sanitization step describes for one string: each quote
  becomes backslash-quote and each backslash becomes two backslashes.
\<close>

definition sanitize_spec :: "jsstring \<Rightarrow> jsstring" where
  "sanitize_spec input =
     concat (map (\<lambda>c. if c = 0x22 then [0x5C, 0x22]
                      else if c = 0x5C then [0x5C, 0x5C] else [c])
       (collapseNewlines (removeAngleBrackets (trim input))))"

text \<open>
  The sanitized, defaulted field values of the specification's steps 2 and 3: the
  five free-text fields after \<open>sanitizeInput\<close>, the platform list as it is.
\<close>

definition spec_sanitizedFields :: "BriefFields \<Rightarrow> BriefFields" where
  "spec_sanitizedFields f =
     \<lparr> productDescription' = sanitizeInput (productDescription' f),
       targetAudience' = sanitizeInput (targetAudience' f),
       campaignGoals' = sanitizeInput (campaignGoals' f),
       budget' = sanitizeInput (budget' f),
       platforms' = platforms' f,
       timeframe' = sanitizeInput (timeframe' f) \<rparr>"






text \<open>
  The retention invariant as the specification words it, for one caller: every
  stored timestamp lies within the hour before \<open>now\<close>.
\<close>

definition spec_withinWindow :: "AIServiceWithCache \<Rightarrow> jsstring \<Rightarrow> int \<Rightarrow> bool" where
  "spec_withinWindow s key now = list_all (\<lambda>t. now - 3600000 < t) (requestsOf s key)"

section \<open>Test doubles and worked examples\<close>

text \<open>
  An SDK that answers every call with the same text, one that always throws an
  \<open>Error\<close> with the given message, one that throws on the first attempt and
  would answer any further attempt, and a clock that reads the same time at all
  four points of a call.
\<close>

definition answeringSdk :: "jsstring \<Rightarrow> sdk" where
  "answeringSdk reply =
     \<lparr> openai_create = (\<lambda>attempt system user. Returned (Some reply)),
       anthropic_create = (\<lambda>attempt user. Returned (TextBlock reply)),
       gemini_generateContent = (\<lambda>attempt full. Returned reply) \<rparr>"

definition throwingSdk :: "jsstring \<Rightarrow> sdk" where
  "throwingSdk msg =
     \<lparr> openai_create = (\<lambda>attempt system user. Threw (Some msg)),
       anthropic_create = (\<lambda>attempt user. Threw (Some msg)),
       gemini_generateContent = (\<lambda>attempt full. Threw (Some msg)) \<rparr>"


definition clockAt :: "int \<Rightarrow> clock" where
  "clockAt t = \<lparr> atCacheCheck = t, atRateCheck = t, atCacheStore = t, atRateRecord = t \<rparr>"

definition briefFor :: "jsstring \<Rightarrow> jsstring \<Rightarrow> jsstring option \<Rightarrow> CreatorBriefInput" where
  "briefFor pd ta uid =
     \<lparr> productDescription = pd, targetAudience = ta, campaignGoals = None, budget = None,
       platforms = None, timeframe = None, userId = uid \<rparr>"

text \<open>
  Two requests that differ in one trailing space of the product description, and the
  two calls \<open>generateCreatorBrief\<close> makes for them to the orchestrator, one
  millisecond apart, for the same caller; the provider answers the second call
  differently.
\<close>

definition exampleA :: BriefFields where
  "exampleA = withDefaults (briefFor (ascii ''Water bottle'') (ascii ''Runners'') None)"

definition exampleB :: BriefFields where
  "exampleB = withDefaults (briefFor (ascii ''Water bottle '') (ascii ''Runners'') None)"

definition firstCall :: "(jsstring + jsstring) \<times> AIServiceWithCache" where
  "firstCall =
     generateCompletionWithCache OpenAI (answeringSdk (ascii ''first'')) (clockAt 0)
       (buildPrompt exampleA) (Some (createCacheKey exampleA)) (Some (ascii ''u1''))
       newService"

definition secondCall :: "(jsstring + jsstring) \<times> AIServiceWithCache" where
  "secondCall =
     generateCompletionWithCache OpenAI (answeringSdk (ascii ''second'')) (clockAt 1)
       (buildPrompt exampleB) (Some (createCacheKey exampleB)) (Some (ascii ''u1''))
       (snd firstCall)"

text \<open>
  Ten requests of one caller, at milliseconds 1 to 10, in which the provider is
  down each time.
\<close>

definition tenFailures :: "request list" where
  "tenFailures =
     map (\<lambda>t. (throwingSdk (ascii ''down''), clockAt t, [], Some (ascii ''brief_1'')))
       [1, 2, 3, 4, 5, 6, 7, 8, 9, 10]"

text \<open>
  A caller with one timestamp recorded at time 0 and nineteen more at time 1,
  eleven requests of that caller two hours later, one millisecond apart, each of
  which the provider would answer, and the state these requests leave.
\<close>

definition staleService :: AIServiceWithCache where
  "staleService = newService\<lparr> rateLimiter := [ascii ''u1'' \<mapsto> 0 # replicate 19 1] \<rparr>"

definition elevenLater :: "request list" where
  "elevenLater =
     map (\<lambda>t. (answeringSdk (ascii ''first''), clockAt t, [], None))
       [7200001, 7200002, 7200003, 7200004, 7200005, 7200006, 7200007, 7200008,
        7200009, 7200010, 7200011]"

definition afterEleven :: AIServiceWithCache where
  "afterEleven =
     newService\<lparr> rateLimiter := [ascii ''u1'' \<mapsto>
         (0 # replicate 19 1)
         @ [7200001, 7200002, 7200003, 7200004, 7200005, 7200006, 7200007, 7200008,
            7200009, 7200010]],
       completions := 10 \<rparr>"

text \<open>Two answered requests of one caller, two hours apart.\<close>

definition twoHoursApart :: "request list" where
  "twoHoursApart =
     [(answeringSdk (ascii ''first''), clockAt 0, [], None),
      (answeringSdk (ascii ''first''), clockAt 7200000, [], None)]"


text \<open>
  Three answers a provider might give and the values \<open>JSON.parse\<close> returns for
  them: a complete brief, the same brief with an empty title, and the same brief
  with an array where the creative direction should be. \<open>exampleParse\<close> is a
  parser that knows these three texts and rejects every other.
\<close>

definition exampleText :: jsstring where
  \<open>exampleText = ascii ''{"campaignTitle":"Hydrate","objective":"Awareness","platforms":["Instagram"],"contentFormats":["video"],"messagingPillars":["Reusable"],"creativeDirection":{},"deliverables":{},"kpis":{}}''\<close>

definition briefWith :: "json \<Rightarrow> json \<Rightarrow> json" where
  "briefWith title direction =
     JObject
       [(ascii ''campaignTitle'', title),
        (ascii ''objective'', JString (ascii ''Awareness'')),
        (ascii ''platforms'', JArray [JString (ascii ''Instagram'')]),
        (ascii ''contentFormats'', JArray [JString (ascii ''video'')]),
        (ascii ''messagingPillars'', JArray [JString (ascii ''Reusable'')]),
        (ascii ''creativeDirection'', direction),
        (ascii ''deliverables'', JObject []),
        (ascii ''kpis'', JObject [])]"

definition exampleBrief :: json where
  "exampleBrief = briefWith (JString (ascii ''Hydrate'')) (JObject [])"

definition emptyTitleText :: jsstring where
  \<open>emptyTitleText = ascii ''{"campaignTitle":"","objective":"Awareness","platforms":["Instagram"],"contentFormats":["video"],"messagingPillars":["Reusable"],"creativeDirection":{},"deliverables":{},"kpis":{}}''\<close>

definition emptyTitleBrief :: json where
  "emptyTitleBrief = briefWith (JString []) (JObject [])"

definition arrayDirectionText :: jsstring where
  \<open>arrayDirectionText = ascii ''{"campaignTitle":"Hydrate","objective":"Awareness","platforms":["Instagram"],"contentFormats":["video"],"messagingPillars":["Reusable"],"creativeDirection":["bold"],"deliverables":{},"kpis":{}}''\<close>

definition arrayDirectionBrief :: json where
  "arrayDirectionBrief = briefWith (JString (ascii ''Hydrate'')) (JArray [JString (ascii ''bold'')])"

definition exampleParse :: "jsstring \<Rightarrow> json option" where
  "exampleParse =
     map_of [(exampleText, exampleBrief), (emptyTitleText, emptyTitleBrief),
             (arrayDirectionText, arrayDirectionBrief)]"

section \<open>Facts about the helpers\<close>

lemma includes_str_iff: "includes_str s pat \<longleftrightarrow> (\<exists>a b. s = a @ pat @ b)"
proof (induction s)
  case Nil
  then show ?case by auto
next
  case (Cons c cs)
  show ?case
  proof
    assume "includes_str (c # cs) pat"
    then consider "prefix pat (c # cs)" | "includes_str cs pat" by auto
    then show "\<exists>a b. c # cs = a @ pat @ b"
    proof cases
      case 1
      then obtain b where "c # cs = pat @ b" by (auto simp: prefix_def)
      then have "c # cs = [] @ pat @ b" by simp
      then show ?thesis by blast
    next
      case 2
      with Cons.IH obtain a b where "cs = a @ pat @ b" by blast
      then have "c # cs = (c # a) @ pat @ b" by simp
      then show ?thesis by blast
    qed
  next
    assume "\<exists>a b. c # cs = a @ pat @ b"
    then obtain a b where ab: "c # cs = a @ pat @ b" by blast
    show "includes_str (c # cs) pat"
    proof (cases a)
      case Nil
      with ab have "prefix pat (c # cs)" by (simp add: prefix_def)
      then show ?thesis by simp
    next
      case (Cons a0 as)
      with ab have "cs = as @ pat @ b" by simp
      with Cons.IH have "includes_str cs pat" by blast
      then show ?thesis by simp
    qed
  qed
qed

lemma trim_quote: "trim [0x22] = [0x22]"
  by (simp add: trim_def trimStart_def trimEnd_def isWhiteSpace_def)

lemma validation_messages_pass_through:
  "msg \<in> set validationMessages \<Longrightarrow>
     catchBlock msg = ascii ''Failed to generate creator brief: '' @ msg"
  by (auto simp: validationMessages_def catchBlock_def ascii_def)

lemma validateInputs_Inl:
  "validateInputs pd ta = Inl msg \<Longrightarrow> msg \<in> set validationMessages"
  by (auto simp: validateInputs_def validationMessages_def split: if_splits)

lemma validateInputs_fails:
  assumes "trim pd = [] \<or> length pd > 1000 \<or> trim ta = [] \<or> length ta > 500"
  shows "\<exists>msg. validateInputs pd ta = Inl msg"
  using assms by (auto simp: validateInputs_def)

section \<open>Facts about the cache and the rate limiter\<close>

lemma cache_hit:
  assumes "key \<noteq> []" and "cache s key = Some e"
    and "atCacheCheck clk - timestamp e < 3600000"
  shows "generateCompletionWithCache p k clk prompt (Some key) rateLimitKey s
           = (Inr (data e), s)"
  using assms by (simp add: generateCompletionWithCache_def given_def isCacheValid_def)

lemma completion_cached:
  assumes "key \<noteq> []"
    and "generateCompletionWithCache p k clk prompt (Some key) rateLimitKey s = (Inr raw, s1)"
  shows "\<exists>e. cache s1 key = Some e \<and> data e = raw"
proof (cases "isCacheValid s key (atCacheCheck clk)")
  case True
  then obtain e where e: "cache s key = Some e" "atCacheCheck clk - timestamp e < 3600000"
    by (auto simp: isCacheValid_def split: option.splits)
  from cache_hit [OF assms(1) e] assms(2) show ?thesis
    using e(1) by auto
next
  case False
  with assms show ?thesis
    by (auto simp: generateCompletionWithCache_def given_def updateRateLimit_def Let_def
        split: if_splits sum.splits)
qed

lemma isRateLimited_iff:
  "isRateLimited s key now
     \<longleftrightarrow> 10 \<le> length (filter (\<lambda>t. now - 3600000 < t) (requestsOf s key))"
  by (simp add: isRateLimited_def)

lemma completion_failure_prefix:
  "generateCompletion p k prompt = Inl e \<Longrightarrow> prefix (ascii ''AI service failed: '') e"
  by (auto simp: generateCompletion_def split: sum.splits)



lemma completion_failure_not_rate_limit:
  "generateCompletion p k prompt = Inl e \<Longrightarrow> e \<noteq> rateLimitMessage"
proof
  assume "generateCompletion p k prompt = Inl e" and "e = rateLimitMessage"
  then have "prefix (ascii ''AI service failed: '') rateLimitMessage"
    using completion_failure_prefix by blast
  then show False by (simp add: rateLimitMessage_def ascii_def)
qed

lemma request_refused:
  assumes "caller \<noteq> []" and "\<not> isCacheHit s cacheKey clk"
    and "isRateLimited s caller (atRateCheck clk)"
  shows "generateCompletionWithCache p k clk prompt cacheKey (Some caller) s
           = (Inl rateLimitMessage, s)"
  using assms
  by (simp add: generateCompletionWithCache_def isCacheHit_def given_def rateLimitMessage_def)

lemma request_admitted:
  assumes "caller \<noteq> []" and "\<not> isCacheHit s cacheKey clk"
    and "\<not> isRateLimited s caller (atRateCheck clk)"
    and "generateCompletion p k prompt = Inr text"
  shows "fst (generateCompletionWithCache p k clk prompt cacheKey (Some caller) s) = Inr text"
    and "requestsOf (snd (generateCompletionWithCache p k clk prompt cacheKey (Some caller) s))
           caller = requestsOf s caller @ [atRateRecord clk]"
  using assms
  by (auto simp: generateCompletionWithCache_def isCacheHit_def given_def Let_def
      updateRateLimit_def requestsOf_def)

lemma request_failed:
  assumes "\<not> isCacheHit s cacheKey clk"
    and "\<not> (given rateLimitKey \<and> isRateLimited s (the rateLimitKey) (atRateCheck clk))"
    and "generateCompletion p k prompt = Inl e"
  shows "generateCompletionWithCache p k clk prompt cacheKey rateLimitKey s
           = (Inl e, s\<lparr> completions := completions s + 1 \<rparr>)"
  using assms
  by (auto simp: generateCompletionWithCache_def isCacheHit_def)

lemma request_refused_iff:
  assumes "caller \<noteq> []" and "\<not> isCacheHit s cacheKey clk"
  shows "generateCompletionWithCache p k clk prompt cacheKey (Some caller) s
           = (Inl rateLimitMessage, s)
         \<longleftrightarrow> isRateLimited s caller (atRateCheck clk)"
proof
  assume "isRateLimited s caller (atRateCheck clk)"
  with assms show "generateCompletionWithCache p k clk prompt cacheKey (Some caller) s
      = (Inl rateLimitMessage, s)"
    by (rule request_refused)
next
  assume refused: "generateCompletionWithCache p k clk prompt cacheKey (Some caller) s
      = (Inl rateLimitMessage, s)"
  show "isRateLimited s caller (atRateCheck clk)"
  proof (rule ccontr)
    assume free: "\<not> isRateLimited s caller (atRateCheck clk)"
    show False
    proof (cases "generateCompletion p k prompt")
      case (Inl e)
      from request_failed [OF assms(2) _ Inl] free refused
      have "e = rateLimitMessage" by simp
      with completion_failure_not_rate_limit [OF Inl] show False by blast
    next
      case (Inr reply)
      from request_admitted(1) [OF assms free Inr] refused show False by simp
    qed
  qed
qed

lemma serve_window:
  assumes "caller \<noteq> []"
  shows "serve p (Some caller) requests s = (outs, s') \<Longrightarrow>
         list_all (\<lambda>out. \<not> fst out) outs \<Longrightarrow>
         list_all (providerAnswers p) requests \<Longrightarrow>
         (\<forall>r \<in> set requests. \<forall>t \<in> set (requestsOf s caller @ map recordedAt requests).
            inWindowOf r t = recent t) \<Longrightarrow>
         (\<forall>r \<in> set requests. recent (recordedAt r)) \<Longrightarrow>
         list_all (\<lambda>out. answered (snd out))
           (take (10 - length (filter recent (requestsOf s caller))) outs)
         \<and> list_all (\<lambda>out. snd out = Inl rateLimitMessage)
             (drop (10 - length (filter recent (requestsOf s caller))) outs)
         \<and> requestsOf s' caller
             = requestsOf s caller
               @ map recordedAt
                   (take (10 - length (filter recent (requestsOf s caller))) requests)"
proof (induction requests arbitrary: s outs s')
  case Nil
  then show ?case by simp
next
  case (Cons r requests)
  obtain k clk prompt cacheKey where r: "r = (k, clk, prompt, cacheKey)"
    by (cases r) auto
  obtain res s1 where step:
    "generateCompletionWithCache p k clk prompt cacheKey (Some caller) s = (res, s1)"
    by (cases "generateCompletionWithCache p k clk prompt cacheKey (Some caller) s") auto
  obtain rs s2 where rest: "serve p (Some caller) requests s1 = (rs, s2)"
    by (cases "serve p (Some caller) requests s1") auto
  from Cons.prems(1) r step rest
  have outs: "outs = (isCacheHit s cacheKey clk, res) # rs" and s': "s' = s2"
    by simp_all
  from Cons.prems(2) outs have miss: "\<not> isCacheHit s cacheKey clk"
    and misses: "list_all (\<lambda>out. \<not> fst out) rs"
    by simp_all
  from Cons.prems(3) have more_answers: "list_all (providerAnswers p) requests" by simp
  from Cons.prems(5) have fresh: "recent (recordedAt r)"
    and more_fresh: "\<forall>q \<in> set requests. recent (recordedAt q)"
    by simp_all
  let ?n = "length (filter recent (requestsOf s caller))"
  from Cons.prems(4) have "\<forall>t \<in> set (requestsOf s caller). inWindowOf r t = recent t"
    by simp
  then have "filter (\<lambda>t. atRateCheck clk - 3600000 < t) (requestsOf s caller)
      = filter recent (requestsOf s caller)"
    by (intro filter_cong) (auto simp: r inWindowOf_def)
  then have count: "isRateLimited s caller (atRateCheck clk) \<longleftrightarrow> 10 \<le> ?n"
    by (simp add: isRateLimited_iff)
  show ?case
  proof (cases "10 \<le> ?n")
    case True
    with count have "isRateLimited s caller (atRateCheck clk)" by simp
    from request_refused [OF assms miss this] step
    have res: "res = Inl rateLimitMessage" and s1: "s1 = s" by simp_all
    from Cons.prems(4) have window: "\<forall>q \<in> set requests.
        \<forall>t \<in> set (requestsOf s caller @ map recordedAt requests). inWindowOf q t = recent t"
      by simp
    note Cons.IH [OF rest [unfolded s1] misses more_answers window more_fresh]
    with True outs s' res show ?thesis by simp
  next
    case False
    with count have free: "\<not> isRateLimited s caller (atRateCheck clk)" by simp
    from Cons.prems(3) r obtain reply where reply: "generateCompletion p k prompt = Inr reply"
      by (auto simp: providerAnswers_def split: sum.splits)
    from request_admitted [OF assms miss free reply] step
    have res: "res = Inr reply"
      and s1: "requestsOf s1 caller = requestsOf s caller @ [atRateRecord clk]"
      by simp_all
    have stamp: "recordedAt r = atRateRecord clk"
      by (simp add: r recordedAt_def)
    from Cons.prems(4) s1 stamp have window: "\<forall>q \<in> set requests.
        \<forall>t \<in> set (requestsOf s1 caller @ map recordedAt requests). inWindowOf q t = recent t"
      by auto
    from s1 stamp fresh
    have n1: "length (filter recent (requestsOf s1 caller)) = Suc ?n"
      by simp
    from False have split: "10 - ?n = Suc (10 - Suc ?n)" by simp
    note Cons.IH [OF rest misses more_answers window more_fresh, unfolded n1]
    with outs s' res s1 stamp show ?thesis
      unfolding split by (simp add: answered_def)
  qed
qed

section \<open>Facts about the workflow\<close>

lemma createCacheKey_nonempty: "createCacheKey f \<noteq> []"
  by (simp add: createCacheKey_def ascii_def)

lemma withDefaults_userId: "withDefaults (i\<lparr> userId := caller \<rparr>) = withDefaults i"
  by (simp add: withDefaults_def)

lemma tryBlock_Inr:
  assumes "tryBlock JSON_parse p k clk i s = (Inr brief, s1)"
  shows "\<exists>response.
           validateInputs (productDescription i) (targetAudience i) = Inr ()
           \<and> generateCompletionWithCache p k clk (buildPrompt (withDefaults i))
                (Some (createCacheKey (withDefaults i))) (userId i) s = (Inr response, s1)
           \<and> parseAndValidateResponse JSON_parse response = Inr brief"
  using assms by (auto simp: tryBlock_def split: sum.splits prod.splits)

lemma generateCreatorBrief_Inr:
  "generateCreatorBrief JSON_parse p k clk i s = (Inr brief, s1)
     \<longleftrightarrow> tryBlock JSON_parse p k clk i s = (Inr brief, s1)"
  by (auto simp: generateCreatorBrief_def split: sum.splits prod.splits)

lemma workflow_hit:
  assumes "validateInputs (productDescription i) (targetAudience i) = Inr ()"
    and "cache s (createCacheKey (withDefaults i)) = Some e"
    and "atCacheCheck clk - timestamp e < 3600000"
  shows "tryBlock JSON_parse p k clk (i\<lparr> userId := caller \<rparr>) s
           = (parseAndValidateResponse JSON_parse (data e), s)"
  using assms(1) cache_hit [OF createCacheKey_nonempty assms(2,3)]
  by (simp add: tryBlock_def withDefaults_userId split: sum.splits)

lemma workflow_miss:
  assumes "validateInputs (productDescription i) (targetAudience i) = Inr ()"
    and "\<not> isCacheHit s (Some (createCacheKey (withDefaults i))) clk"
    and "\<not> (given (userId i) \<and> isRateLimited s (the (userId i)) (atRateCheck clk))"
    and "generateCompletion p k (buildPrompt (withDefaults i)) = Inr raw"
  shows "\<exists>s1. tryBlock JSON_parse p k clk i s = (parseAndValidateResponse JSON_parse raw, s1)
           \<and> cache s1 (createCacheKey (withDefaults i))
               = Some \<lparr> data = raw, timestamp = atCacheStore clk \<rparr>
           \<and> completions s1 = completions s + 1"
  using assms createCacheKey_nonempty [of "withDefaults i"]
  by (auto simp: tryBlock_def generateCompletionWithCache_def isCacheHit_def given_def
      Let_def updateRateLimit_def split: sum.splits)

section \<open>Facts about the structural validation\<close>








section \<open>The worked example\<close>

lemma key_exampleA: "createCacheKey exampleA = ascii ''brief_1907726826''"
  by (simp add: exampleA_def createCacheKey_def withDefaults_def briefFor_def
      stringifyInputs_def quoteJSONString_def ascii_def isHighSurrogate_def
      isLowSurrogate_def hashString_def hashStep_def showNat.simps)

lemma key_exampleB: "createCacheKey exampleB = ascii ''brief_1737680800''"
  by (simp add: exampleB_def createCacheKey_def withDefaults_def briefFor_def
      stringifyInputs_def quoteJSONString_def ascii_def isHighSurrogate_def
      isLowSurrogate_def hashString_def hashStep_def showNat.simps)

lemma sanitize_example:
  "sanitizeInput (ascii ''Water bottle '') = sanitizeInput (ascii ''Water bottle'')"
  by (simp add: sanitizeInput_def ascii_def trim_def trimStart_def trimEnd_def
      isWhiteSpace_def)

lemma sanitized_examples: "spec_sanitizedFields exampleA = spec_sanitizedFields exampleB"
  by (simp add: spec_sanitizedFields_def exampleA_def exampleB_def withDefaults_def
      briefFor_def sanitize_example)

lemma buildPrompt_sanitized:
  assumes "spec_sanitizedFields f = spec_sanitizedFields g"
  shows "buildPrompt f = buildPrompt g"
proof -
  from assms have
    "sanitizeInput (productDescription' f) = sanitizeInput (productDescription' g)"
    "sanitizeInput (targetAudience' f) = sanitizeInput (targetAudience' g)"
    "sanitizeInput (campaignGoals' f) = sanitizeInput (campaignGoals' g)"
    "sanitizeInput (budget' f) = sanitizeInput (budget' g)"
    "platforms' f = platforms' g"
    "sanitizeInput (timeframe' f) = sanitizeInput (timeframe' g)"
    by (simp_all add: spec_sanitizedFields_def)
  then show ?thesis by (simp add: buildPrompt_def)
qed

lemma completion_answered:
  "generateCompletion OpenAI (answeringSdk (ascii ''first'')) prompt = Inr (ascii ''first'')"
  "generateCompletion OpenAI (answeringSdk (ascii ''second'')) prompt = Inr (ascii ''second'')"
  by (simp_all add: generateCompletion_def generateOpenAICompletion_def answeringSdk_def
      ascii_def trim_def trimStart_def trimEnd_def isWhiteSpace_def)

lemma firstCall_eq:
  "firstCall =
     (Inr (ascii ''first''),
      \<lparr> cache = [ascii ''brief_1907726826'' \<mapsto> \<lparr> data = ascii ''first'', timestamp = 0 \<rparr>],
        rateLimiter = [ascii ''u1'' \<mapsto> [0]],
        completions = 1 \<rparr>)"
  by (simp add: firstCall_def generateCompletionWithCache_def key_exampleA given_def
      isCacheValid_def isRateLimited_def requestsOf_def updateRateLimit_def
      completion_answered newService_def clockAt_def Let_def)
     (simp add: ascii_def)

lemma secondCall_eq:
  "secondCall =
     (Inr (ascii ''second''),
      \<lparr> cache = [ascii ''brief_1907726826'' \<mapsto> \<lparr> data = ascii ''first'', timestamp = 0 \<rparr>,
                 ascii ''brief_1737680800'' \<mapsto> \<lparr> data = ascii ''second'', timestamp = 1 \<rparr>],
        rateLimiter = [ascii ''u1'' \<mapsto> [0, 1]],
        completions = 2 \<rparr>)"
  by (simp add: secondCall_def firstCall_eq generateCompletionWithCache_def key_exampleB
      given_def isCacheValid_def isRateLimited_def requestsOf_def updateRateLimit_def
      completion_answered clockAt_def Let_def)
     (simp add: ascii_def)

lemma completion_thrown:
  "generateCompletion OpenAI (throwingSdk msg) prompt = Inl (ascii ''AI service failed: '' @ msg)"
  by (simp add: generateCompletion_def generateOpenAICompletion_def throwingSdk_def)

lemma completion_down:
  "generateCompletion OpenAI (throwingSdk (ascii ''down'')) prompt
     = Inl (ascii ''AI service failed: down'')"
  by (simp add: completion_thrown ascii_def)

lemma briefFor_userId: "userId (briefFor pd ta caller) = caller"
  by (simp add: briefFor_def)

lemma exampleA_any_caller:
  "withDefaults (briefFor (ascii ''Water bottle'') (ascii ''Runners'') caller) = exampleA"
  by (simp add: exampleA_def withDefaults_def briefFor_def)

lemma example_valid:
  "validateInputs (productDescription (briefFor (ascii ''Water bottle'') (ascii ''Runners'') caller))
     (targetAudience (briefFor (ascii ''Water bottle'') (ascii ''Runners'') caller)) = Inr ()"
  by (simp add: validateInputs_def briefFor_def ascii_def trim_def trimStart_def trimEnd_def
      isWhiteSpace_def)

lemma trim_exampleText: "trim exampleText = exampleText"
  by (simp add: exampleText_def ascii_def trim_def trimStart_def trimEnd_def isWhiteSpace_def)

lemma clean_exampleText: "cleanResponse exampleText = exampleText"
  unfolding cleanResponse_def trim_exampleText
  by (simp add: exampleText_def ascii_def trim_def trimStart_def trimEnd_def isWhiteSpace_def
      stripJsonFence_def stripTrailingFence_def stripLeadingFence_def fence_def suffix_def)

lemma exampleBrief_valid: "validateStructure exampleBrief = Inr exampleBrief"
  by (simp add: validateStructure_def exampleBrief_def briefWith_def isObjectValue_def truthy_def
      typeofObject_def requiredFields_def arrayFields_def getProperty_def
      isNonEmptyArray_def ascii_def)

lemma parse_exampleText: "parseAndValidateResponse exampleParse exampleText = Inr exampleBrief"
  by (simp add: parseAndValidateResponse_def clean_exampleText exampleParse_def
      exampleBrief_valid)

lemma completion_exampleText:
  "generateCompletion OpenAI (answeringSdk exampleText) prompt = Inr exampleText"
proof -
  have "exampleText \<noteq> []" by (simp add: exampleText_def ascii_def)
  then show ?thesis
    by (simp add: generateCompletion_def generateOpenAICompletion_def answeringSdk_def
        trim_exampleText)
qed

lemma parse_first: "exampleParse (ascii ''first'') = None"
  by (simp add: exampleParse_def exampleText_def emptyTitleText_def arrayDirectionText_def
      ascii_def)





section \<open>Claims\<close>

text \<open>
  C1, as stated, ends: a second call with identical sanitized inputs within the TTL
  returns the same raw text and does not increment the caller's rate-limit counter.
  The two example requests have the same sanitized field values and the same prompt,
  but their fingerprints differ, so the second call, one millisecond later, asks the
  provider again, returns another text and records a second timestamp for the
  caller.
\<close>

theorem sanitized_repeat_misses_cache:
  "spec_sanitizedFields exampleA = spec_sanitizedFields exampleB
   \<and> buildPrompt exampleA = buildPrompt exampleB
   \<and> fst firstCall = Inr (ascii ''first'')
   \<and> fst secondCall = Inr (ascii ''second'')
   \<and> completions (snd firstCall) = 1 \<and> completions (snd secondCall) = 2
   \<and> requestsOf (snd firstCall) (ascii ''u1'') = [0]
   \<and> requestsOf (snd secondCall) (ascii ''u1'') = [0, 1]"
  using sanitized_examples buildPrompt_sanitized [OF sanitized_examples]
  by (simp add: firstCall_eq secondCall_eq requestsOf_def)

text \<open>
  C1, amended. For a non-empty fingerprint whose cache entry is less than one hour
  old, \<open>generateCompletionWithCache\<close> returns the cached text and leaves the whole
  state as it was: no completion is requested and no rate-limit timestamp is
  recorded. Hence, once a call with that fingerprint has returned a text, every later
  call with the same fingerprint made while the entry is less than one hour old
  returns the same text and changes nothing, whatever its prompt, caller, provider
  and SDK.
\<close>

theorem cache_hit_fast_path:
  assumes "key \<noteq> []"
  shows "(cache s key = Some e \<and> atCacheCheck clk - timestamp e < 3600000 \<longrightarrow>
            generateCompletionWithCache p k clk prompt (Some key) rateLimitKey s
              = (Inr (data e), s))
       \<and> (generateCompletionWithCache p k clk prompt (Some key) rateLimitKey s = (Inr raw, s1) \<longrightarrow>
            (\<exists>e1. cache s1 key = Some e1 \<and> data e1 = raw
               \<and> (\<forall>p2 k2 clk2 prompt2 rateLimitKey2.
                     atCacheCheck clk2 - timestamp e1 < 3600000 \<longrightarrow>
                     generateCompletionWithCache p2 k2 clk2 prompt2 (Some key) rateLimitKey2 s1
                       = (Inr raw, s1))))"
proof (intro conjI impI)
  assume "cache s key = Some e \<and> atCacheCheck clk - timestamp e < 3600000"
  then show "generateCompletionWithCache p k clk prompt (Some key) rateLimitKey s
               = (Inr (data e), s)"
    using cache_hit [OF assms] by blast
next
  assume "generateCompletionWithCache p k clk prompt (Some key) rateLimitKey s = (Inr raw, s1)"
  from completion_cached [OF assms this] obtain e1
    where e1: "cache s1 key = Some e1" "data e1 = raw" by blast
  have "generateCompletionWithCache p2 k2 clk2 prompt2 (Some key) rateLimitKey2 s1
          = (Inr raw, s1)"
    if "atCacheCheck clk2 - timestamp e1 < 3600000" for p2 k2 clk2 prompt2 rateLimitKey2
    using cache_hit [OF assms e1(1) that] e1(2) by simp
  with e1 show "\<exists>e1. cache s1 key = Some e1 \<and> data e1 = raw
      \<and> (\<forall>p2 k2 clk2 prompt2 rateLimitKey2.
            atCacheCheck clk2 - timestamp e1 < 3600000 \<longrightarrow>
            generateCompletionWithCache p2 k2 clk2 prompt2 (Some key) rateLimitKey2 s1
              = (Inr raw, s1))"
    by blast
qed

theorem cache_hit_fast_path_witness:
  "createCacheKey exampleA \<noteq> []
   \<and> generateCompletionWithCache OpenAI (answeringSdk (ascii ''first'')) (clockAt 0)
        (buildPrompt exampleA) (Some (createCacheKey exampleA)) (Some (ascii ''u1''))
        newService
      = (Inr (ascii ''first''), snd firstCall)
   \<and> cache (snd firstCall) (createCacheKey exampleA)
       = Some \<lparr> data = ascii ''first'', timestamp = 0 \<rparr>
   \<and> atCacheCheck (clockAt 3599999) - timestamp \<lparr> data = ascii ''first'', timestamp = 0 \<rparr> < 3600000
   \<and> generateCompletionWithCache Gemini (throwingSdk (ascii ''down'')) (clockAt 3599999)
        (buildPrompt exampleA) (Some (createCacheKey exampleA)) (Some (ascii ''u2''))
        (snd firstCall)
      = (Inr (ascii ''first''), snd firstCall)"
proof -
  have key: "createCacheKey exampleA \<noteq> []"
    by (simp add: key_exampleA ascii_def)
  have run: "generateCompletionWithCache OpenAI (answeringSdk (ascii ''first'')) (clockAt 0)
        (buildPrompt exampleA) (Some (createCacheKey exampleA)) (Some (ascii ''u1''))
        newService
      = (Inr (ascii ''first''), snd firstCall)"
    using firstCall_eq by (simp add: firstCall_def)
  have entry: "cache (snd firstCall) (createCacheKey exampleA)
      = Some \<lparr> data = ascii ''first'', timestamp = 0 \<rparr>"
    by (simp add: firstCall_eq key_exampleA)
  have age: "atCacheCheck (clockAt 3599999)
      - timestamp \<lparr> data = ascii ''first'', timestamp = 0 \<rparr> < 3600000"
    by (simp add: clockAt_def)
  note both = cache_hit_fast_path [OF key, of "snd firstCall"
      "\<lparr> data = ascii ''first'', timestamp = 0 \<rparr>" "clockAt 3599999" Gemini
      "throwingSdk (ascii ''down'')" "buildPrompt exampleA" "Some (ascii ''u2'')"]
  from both [THEN conjunct1] entry age
  have hit: "generateCompletionWithCache Gemini (throwingSdk (ascii ''down'')) (clockAt 3599999)
        (buildPrompt exampleA) (Some (createCacheKey exampleA)) (Some (ascii ''u2''))
        (snd firstCall)
      = (Inr (ascii ''first''), snd firstCall)"
    by simp
  from cache_hit_fast_path [OF key, THEN conjunct2, rule_format, OF run] obtain e1 where
    e1: "cache (snd firstCall) (createCacheKey exampleA) = Some e1"
    and later: "\<And>p2 k2 clk2 prompt2 rateLimitKey2.
        atCacheCheck clk2 - timestamp e1 < 3600000 \<Longrightarrow>
        generateCompletionWithCache p2 k2 clk2 prompt2 (Some (createCacheKey exampleA))
          rateLimitKey2 (snd firstCall) = (Inr (ascii ''first''), snd firstCall)"
    by blast
  from e1 entry have "e1 = \<lparr> data = ascii ''first'', timestamp = 0 \<rparr>"
    by simp
  with age have "atCacheCheck (clockAt 3599999) - timestamp e1 < 3600000"
    by simp
  from later [OF this] have
    "generateCompletionWithCache Gemini (throwingSdk (ascii ''down'')) (clockAt 3599999)
        (buildPrompt exampleA) (Some (createCacheKey exampleA)) (Some (ascii ''u2''))
        (snd firstCall)
      = (Inr (ascii ''first''), snd firstCall)" .
  from key run entry age hit show ?thesis by blast
qed

text \<open>
  C2, as stated, ends: the eleventh non-cache-hit request of one caller within 60
  minutes fails with the rate-limit error. In \<open>tenFailures\<close> the caller makes ten
  requests, none a cache hit, and the provider fails each time; a timestamp is
  recorded only after the provider has answered, so nothing is recorded and the
  eleventh request, one millisecond later, is admitted and answered.
\<close>

theorem eleventh_request_after_failures_admitted:
  "serve OpenAI (Some (ascii ''u1'')) tenFailures newService
     = (replicate 10 (False, Inl (ascii ''AI service failed: down'')),
        newService\<lparr> completions := 10 \<rparr>)
   \<and> isCacheHit (newService\<lparr> completions := 10 \<rparr>) (Some (ascii ''brief_1'')) (clockAt 11) = False
   \<and> fst (generateCompletionWithCache OpenAI (answeringSdk (ascii ''first'')) (clockAt 11) []
             (Some (ascii ''brief_1'')) (Some (ascii ''u1''))
             (newService\<lparr> completions := 10 \<rparr>))
       = Inr (ascii ''first'')"
  by (simp add: tenFailures_def generateCompletionWithCache_def completion_down
      completion_answered isCacheHit_def given_def isCacheValid_def isRateLimited_def
      requestsOf_def updateRateLimit_def newService_def clockAt_def Let_def
      eval_nat_numeral)

text \<open>
  C2, amended. The check reports "limited" exactly when at least 10 of the caller's
  recorded timestamps are strictly newer than now minus one hour. In every state, a
  request of a caller with a non-empty identity that is not a cache hit is refused
  with the rate-limit error, the state unchanged, exactly when at least 10 of that
  caller's stored timestamps are strictly newer than the request's check time minus
  one hour; it appends one timestamp to the caller's sequence exactly when it is
  not refused and the provider answers it. Consequently, take any state and any run
  of requests of that caller, none a cache hit, each answered by the provider if
  admitted, such that the recorded timestamps are within the hour before every
  check of the run and each stored timestamp is within the hour before every check
  or before none (\<open>recent\<close> marks the former). If \<open>m\<close> stored timestamps are recent,
  the first \<open>10 - m\<close> requests of the run are answered and record their
  timestamps, and every later request is refused: with no recent timestamp the
  tenth request is admitted and the eleventh is refused.
\<close>

theorem rate_limit_threshold:
  assumes "caller \<noteq> []"
  shows "(\<forall>s0 key now. isRateLimited s0 key now
            \<longleftrightarrow> 10 \<le> length (filter (\<lambda>t. now - 3600000 < t) (requestsOf s0 key)))
       \<and> (\<not> isCacheHit s cacheKey clk \<longrightarrow>
            (generateCompletionWithCache p k clk prompt cacheKey (Some caller) s
               = (Inl rateLimitMessage, s)
             \<longleftrightarrow> 10 \<le> length (filter (\<lambda>t. atRateCheck clk - 3600000 < t)
                                (requestsOf s caller)))
            \<and> requestsOf (snd (generateCompletionWithCache p k clk prompt cacheKey
                                  (Some caller) s)) caller
                = requestsOf s caller
                  @ (if length (filter (\<lambda>t. atRateCheck clk - 3600000 < t)
                                  (requestsOf s caller)) < 10
                        \<and> answered (generateCompletion p k prompt)
                     then [atRateRecord clk] else []))
       \<and> (serve p (Some caller) requests s = (outs, s')
            \<and> list_all (\<lambda>out. \<not> fst out) outs
            \<and> list_all (providerAnswers p) requests
            \<and> list_all (\<lambda>r. list_all (\<lambda>t. inWindowOf r t = recent t)
                                (requestsOf s caller @ map recordedAt requests)) requests
            \<and> list_all (\<lambda>r. recent (recordedAt r)) requests
          \<longrightarrow>
            list_all (\<lambda>out. answered (snd out))
              (take (10 - length (filter recent (requestsOf s caller))) outs)
            \<and> list_all (\<lambda>out. snd out = Inl rateLimitMessage)
                (drop (10 - length (filter recent (requestsOf s caller))) outs)
            \<and> requestsOf s' caller
                = requestsOf s caller
                  @ map recordedAt
                      (take (10 - length (filter recent (requestsOf s caller))) requests))"
proof (intro conjI impI allI)
  fix s0 key now
  show "isRateLimited s0 key now
      \<longleftrightarrow> 10 \<le> length (filter (\<lambda>t. now - 3600000 < t) (requestsOf s0 key))"
    by (rule isRateLimited_iff)
next
  assume miss: "\<not> isCacheHit s cacheKey clk"
  from request_refused_iff [OF assms miss]
  show "generateCompletionWithCache p k clk prompt cacheKey (Some caller) s
          = (Inl rateLimitMessage, s)
        \<longleftrightarrow> 10 \<le> length (filter (\<lambda>t. atRateCheck clk - 3600000 < t) (requestsOf s caller))"
    by (simp add: isRateLimited_iff)
next
  assume miss: "\<not> isCacheHit s cacheKey clk"
  let ?count = "length (filter (\<lambda>t. atRateCheck clk - 3600000 < t) (requestsOf s caller))"
  show "requestsOf (snd (generateCompletionWithCache p k clk prompt cacheKey (Some caller) s))
          caller
        = requestsOf s caller
          @ (if ?count < 10 \<and> answered (generateCompletion p k prompt)
             then [atRateRecord clk] else [])"
  proof (cases "isRateLimited s caller (atRateCheck clk)")
    case True
    then have "\<not> ?count < 10"
      unfolding isRateLimited_iff by linarith
    with request_refused [OF assms miss True, of p k prompt] show ?thesis
      by simp
  next
    case False
    then have below: "?count < 10"
      unfolding isRateLimited_iff by linarith
    show ?thesis
    proof (cases "generateCompletion p k prompt")
      case (Inl e)
      from False assms have "\<not> (given (Some caller)
          \<and> isRateLimited s (the (Some caller)) (atRateCheck clk))"
        by simp
      from request_failed [OF miss this Inl] Inl show ?thesis
        by (simp add: answered_def requestsOf_def)
    next
      case (Inr reply)
      from request_admitted(2) [OF assms miss False Inr] Inr below show ?thesis
        by (simp add: answered_def)
    qed
  qed
next
  assume run: "serve p (Some caller) requests s = (outs, s')
      \<and> list_all (\<lambda>out. \<not> fst out) outs
      \<and> list_all (providerAnswers p) requests
      \<and> list_all (\<lambda>r. list_all (\<lambda>t. inWindowOf r t = recent t)
                          (requestsOf s caller @ map recordedAt requests)) requests
      \<and> list_all (\<lambda>r. recent (recordedAt r)) requests"
  then have window: "\<forall>r \<in> set requests.
      \<forall>t \<in> set (requestsOf s caller @ map recordedAt requests). inWindowOf r t = recent t"
    and fresh: "\<forall>r \<in> set requests. recent (recordedAt r)"
    by (simp_all add: list_all_iff)
  from run have served: "serve p (Some caller) requests s = (outs, s')"
    and misses: "list_all (\<lambda>out. \<not> fst out) outs"
    and answers: "list_all (providerAnswers p) requests"
    by simp_all
  note result = serve_window [OF assms served misses answers window fresh]
  from result show "list_all (\<lambda>out. answered (snd out))
      (take (10 - length (filter recent (requestsOf s caller))) outs)"
    by blast
  from result show "list_all (\<lambda>out. snd out = Inl rateLimitMessage)
      (drop (10 - length (filter recent (requestsOf s caller))) outs)"
    by blast
  from result show "requestsOf s' caller
      = requestsOf s caller
        @ map recordedAt (take (10 - length (filter recent (requestsOf s caller))) requests)"
    by blast
qed

theorem rate_limit_threshold_witness:
  "ascii ''u1'' \<noteq> []
   \<and> serve OpenAI (Some (ascii ''u1'')) elevenLater staleService
       = (replicate 10 (False, Inr (ascii ''first'')) @ [(False, Inl rateLimitMessage)],
          afterEleven)
   \<and> list_all (\<lambda>out. \<not> fst out)
       (replicate 10 (False, Inr (ascii ''first'')) @ [(False, Inl rateLimitMessage)])
   \<and> list_all (providerAnswers OpenAI) elevenLater
   \<and> list_all (\<lambda>r. list_all (\<lambda>t. inWindowOf r t = (3600011 < t))
                       (requestsOf staleService (ascii ''u1'') @ map recordedAt elevenLater))
       elevenLater
   \<and> list_all (\<lambda>r. 3600011 < recordedAt r) elevenLater
   \<and> length (requestsOf staleService (ascii ''u1'')) = 20
   \<and> length (filter (\<lambda>t. 3600011 < t) (requestsOf staleService (ascii ''u1''))) = 0
   \<and> list_all (\<lambda>out. snd out = Inl rateLimitMessage)
       (drop 10 (replicate 10 (False, Inr (ascii ''first'')) @ [(False, Inl rateLimitMessage)]))
   \<and> requestsOf afterEleven (ascii ''u1'')
       = requestsOf staleService (ascii ''u1'') @ map recordedAt (take 10 elevenLater)
   \<and> \<not> isCacheHit afterEleven None (clockAt 7200012)
   \<and> length (filter (\<lambda>t. atRateCheck (clockAt 7200012) - 3600000 < t)
               (requestsOf afterEleven (ascii ''u1''))) = 10
   \<and> generateCompletionWithCache OpenAI (answeringSdk (ascii ''first'')) (clockAt 7200012) []
        None (Some (ascii ''u1'')) afterEleven
      = (Inl rateLimitMessage, afterEleven)"
proof -
  let ?outs = "replicate 10 (False, Inr (ascii ''first'')) @ [(False, Inl rateLimitMessage)]"
  have h0: "ascii ''u1'' \<noteq> []" by (simp add: ascii_def)
  have h1: "serve OpenAI (Some (ascii ''u1'')) elevenLater staleService = (?outs, afterEleven)"
    by (simp add: elevenLater_def staleService_def afterEleven_def
        generateCompletionWithCache_def completion_answered isCacheHit_def given_def
        isRateLimited_def requestsOf_def updateRateLimit_def newService_def clockAt_def
        rateLimitMessage_def Let_def eval_nat_numeral h0)
  have h2: "list_all (\<lambda>out. \<not> fst out) ?outs"
    by (simp add: list_all_iff)
  have h3: "list_all (providerAnswers OpenAI) elevenLater"
    by (simp add: elevenLater_def providerAnswers_def completion_answered)
  have old: "requestsOf staleService (ascii ''u1'') = 0 # replicate 19 1"
    by (simp add: staleService_def requestsOf_def)
  have h4: "list_all (\<lambda>r. list_all (\<lambda>t. inWindowOf r t = (3600011 < t))
                       (requestsOf staleService (ascii ''u1'') @ map recordedAt elevenLater))
       elevenLater"
    unfolding old
    by (simp add: elevenLater_def inWindowOf_def recordedAt_def clockAt_def eval_nat_numeral)
  have h5: "list_all (\<lambda>r. 3600011 < recordedAt r) elevenLater"
    by (simp add: elevenLater_def recordedAt_def clockAt_def)
  have len: "length (requestsOf staleService (ascii ''u1'')) = 20"
    unfolding old by simp
  have none: "length (filter (\<lambda>t. 3600011 < t) (requestsOf staleService (ascii ''u1''))) = 0"
    unfolding old by simp
  note inst = rate_limit_threshold [OF h0, where s = staleService and requests = elevenLater
      and outs = ?outs and s' = afterEleven and recent = "\<lambda>t. 3600011 < t" and p = OpenAI]
  note step = rate_limit_threshold [OF h0, where s = afterEleven and cacheKey = None
      and clk = "clockAt 7200012" and p = OpenAI and k = "answeringSdk (ascii ''first'')"
      and prompt = "[]"]
  from inst [THEN conjunct2, THEN conjunct2, rule_format] h1 h2 h3 h4 h5
  have run: "list_all (\<lambda>out. snd out = Inl rateLimitMessage)
        (drop (10 - length (filter (\<lambda>t. 3600011 < t) (requestsOf staleService (ascii ''u1''))))
           ?outs)
      \<and> requestsOf afterEleven (ascii ''u1'')
          = requestsOf staleService (ascii ''u1'')
            @ map recordedAt
                (take (10 - length (filter (\<lambda>t. 3600011 < t)
                   (requestsOf staleService (ascii ''u1'')))) elevenLater)"
    by blast
  have miss: "\<not> isCacheHit afterEleven None (clockAt 7200012)"
    by (simp add: isCacheHit_def given_def)
  have ten: "length (filter (\<lambda>t. atRateCheck (clockAt 7200012) - 3600000 < t)
               (requestsOf afterEleven (ascii ''u1''))) = 10"
    by (simp add: afterEleven_def requestsOf_def clockAt_def eval_nat_numeral)
  from step [THEN conjunct2, THEN conjunct1, rule_format, OF miss, THEN conjunct1] ten
  have refused: "generateCompletionWithCache OpenAI (answeringSdk (ascii ''first''))
        (clockAt 7200012) [] None (Some (ascii ''u1'')) afterEleven
      = (Inl rateLimitMessage, afterEleven)"
    by simp
  from run none have run10: "list_all (\<lambda>out. snd out = Inl rateLimitMessage) (drop 10 ?outs)
      \<and> requestsOf afterEleven (ascii ''u1'')
          = requestsOf staleService (ascii ''u1'') @ map recordedAt (take 10 elevenLater)"
    by simp
  from h0 h1 h2 h3 h4 h5 len none run10 miss ten refused show ?thesis
    by blast
qed

text \<open>
  C3, as stated: inputs whose sanitized, defaulted field values are equal get equal
  fingerprints. \<open>generateCreatorBrief\<close> hands \<open>createCacheKey\<close> the fields as the
  caller gave them, before any sanitization. The two example requests differ in one
  trailing space: their sanitized field values are equal, their fingerprints are not.
\<close>

theorem sanitized_equal_fingerprints_differ:
  "spec_sanitizedFields exampleA = spec_sanitizedFields exampleB
   \<and> createCacheKey exampleA = ascii ''brief_1907726826''
   \<and> createCacheKey exampleB = ascii ''brief_1737680800''
   \<and> createCacheKey exampleA \<noteq> createCacheKey exampleB"
  using sanitized_examples by (simp add: key_exampleA key_exampleB ascii_def)

text \<open>
  C3, amended. The fingerprint is a function of the defaulted field values as the
  caller gave them, unsanitized: two inputs with the same product description and
  target audience whose optional fields agree once the defaults are filled in get
  the same fingerprint, whatever their caller identities.
\<close>

theorem fingerprint_of_raw_fields:
  assumes "productDescription i = productDescription j"
    and "targetAudience i = targetAudience j"
    and "(case campaignGoals i of
            None \<Rightarrow> ascii ''Increase brand awareness and drive conversions'' | Some g \<Rightarrow> g)
         = (case campaignGoals j of
            None \<Rightarrow> ascii ''Increase brand awareness and drive conversions'' | Some g \<Rightarrow> g)"
    and "(case budget i of None \<Rightarrow> ascii ''Not specified'' | Some b \<Rightarrow> b)
         = (case budget j of None \<Rightarrow> ascii ''Not specified'' | Some b \<Rightarrow> b)"
    and "(case platforms i of None \<Rightarrow> [ascii ''Instagram'', ascii ''TikTok''] | Some ps \<Rightarrow> ps)
         = (case platforms j of None \<Rightarrow> [ascii ''Instagram'', ascii ''TikTok''] | Some ps \<Rightarrow> ps)"
    and "(case timeframe i of None \<Rightarrow> ascii ''30 days'' | Some t \<Rightarrow> t)
         = (case timeframe j of None \<Rightarrow> ascii ''30 days'' | Some t \<Rightarrow> t)"
  shows "createCacheKey (withDefaults i) = createCacheKey (withDefaults j)"
proof -
  from assms have "withDefaults i = withDefaults j"
    by (simp add: withDefaults_def)
  then show ?thesis by simp
qed

theorem fingerprint_of_raw_fields_witness:
  "createCacheKey (withDefaults (briefFor (ascii ''Water bottle'') (ascii ''Runners'') None))
   = createCacheKey (withDefaults
       \<lparr> productDescription = ascii ''Water bottle'', targetAudience = ascii ''Runners'',
         campaignGoals = Some (ascii ''Increase brand awareness and drive conversions''),
         budget = None, platforms = Some [ascii ''Instagram'', ascii ''TikTok''],
         timeframe = Some (ascii ''30 days''), userId = Some (ascii ''u2'') \<rparr>)"
  by (rule fingerprint_of_raw_fields) (simp_all add: briefFor_def)

text \<open>
  C4. Sanitization is described as turning every quote into backslash-quote. The code
  escapes quotes first and backslashes afterwards, so the backslash it has just put
  before a quote is doubled: a lone quote comes out as backslash, backslash, quote,
  where the described transform gives backslash, quote.
\<close>

theorem sanitizeInput_escapes_quote_twice:
  "sanitizeInput [0x22] = [0x5C, 0x5C, 0x22] \<and> sanitize_spec [0x22] = [0x5C, 0x22]"
  by (simp add: sanitizeInput_def sanitize_spec_def trim_quote removeAngleBrackets_def
      escapeQuotes_def escapeBackslashes_def)

text \<open>
  C5. The fingerprint is computed from the fields without the caller identity, so
  changing the caller leaves it unchanged. Hence when \<open>generateCreatorBrief\<close> has
  succeeded for an input, the cache holds the raw text it parsed under that
  fingerprint, and an invocation with the same fields by any caller, made while the
  entry is less than one hour old, returns the same brief and leaves the whole
  state as it was: no completion is requested and nothing is recorded.
\<close>

theorem caller_identity_shares_cache_entry:
  assumes "generateCreatorBrief JSON_parse p k clk i s = (Inr brief, s1)"
  shows "createCacheKey (withDefaults (i\<lparr> userId := caller \<rparr>)) = createCacheKey (withDefaults i)
       \<and> (\<exists>e. cache s1 (createCacheKey (withDefaults i)) = Some e
              \<and> parseAndValidateResponse JSON_parse (data e) = Inr brief
              \<and> (\<forall>p2 k2 clk2 caller2.
                    atCacheCheck clk2 - timestamp e < 3600000 \<longrightarrow>
                    generateCreatorBrief JSON_parse p2 k2 clk2 (i\<lparr> userId := caller2 \<rparr>) s1
                      = (Inr brief, s1)))"
proof -
  from assms have "tryBlock JSON_parse p k clk i s = (Inr brief, s1)"
    by (simp add: generateCreatorBrief_Inr)
  from tryBlock_Inr [OF this] obtain response where
    valid: "validateInputs (productDescription i) (targetAudience i) = Inr ()"
    and call: "generateCompletionWithCache p k clk (buildPrompt (withDefaults i))
                (Some (createCacheKey (withDefaults i))) (userId i) s = (Inr response, s1)"
    and parsed: "parseAndValidateResponse JSON_parse response = Inr brief"
    by blast
  from completion_cached [OF createCacheKey_nonempty call] obtain e where
    e: "cache s1 (createCacheKey (withDefaults i)) = Some e" "data e = response"
    by blast
  have "generateCreatorBrief JSON_parse p2 k2 clk2 (i\<lparr> userId := caller2 \<rparr>) s1
          = (Inr brief, s1)"
    if "atCacheCheck clk2 - timestamp e < 3600000" for p2 k2 clk2 caller2
    using workflow_hit [OF valid e(1) that] e(2) parsed
    by (simp add: generateCreatorBrief_def)
  with e parsed show ?thesis
    by (auto simp: withDefaults_userId)
qed

theorem caller_identity_shares_cache_entry_witness:
  "generateCreatorBrief exampleParse OpenAI (answeringSdk exampleText) (clockAt 0)
     (briefFor (ascii ''Water bottle'') (ascii ''Runners'') (Some (ascii ''u1''))) newService
   = (Inr exampleBrief,
      \<lparr> cache = [createCacheKey exampleA \<mapsto> \<lparr> data = exampleText, timestamp = 0 \<rparr>],
        rateLimiter = [ascii ''u1'' \<mapsto> [0]], completions = 1 \<rparr>)
   \<and> atCacheCheck (clockAt 1000) - timestamp \<lparr> data = exampleText, timestamp = 0 \<rparr> < 3600000
   \<and> generateCreatorBrief exampleParse Anthropic (throwingSdk (ascii ''down'')) (clockAt 1000)
        (briefFor (ascii ''Water bottle'') (ascii ''Runners'') (Some (ascii ''u2'')))
        \<lparr> cache = [createCacheKey exampleA \<mapsto> \<lparr> data = exampleText, timestamp = 0 \<rparr>],
          rateLimiter = [ascii ''u1'' \<mapsto> [0]], completions = 1 \<rparr>
      = (Inr exampleBrief,
         \<lparr> cache = [createCacheKey exampleA \<mapsto> \<lparr> data = exampleText, timestamp = 0 \<rparr>],
           rateLimiter = [ascii ''u1'' \<mapsto> [0]], completions = 1 \<rparr>)"
proof -
  let ?i = "briefFor (ascii ''Water bottle'') (ascii ''Runners'') (Some (ascii ''u1''))"
  let ?s1 = "\<lparr> cache = [createCacheKey exampleA \<mapsto> \<lparr> data = exampleText, timestamp = 0 \<rparr>],
        rateLimiter = [ascii ''u1'' \<mapsto> [0]], completions = 1 \<rparr>"
  have u1: "ascii ''u1'' \<noteq> []" by (simp add: ascii_def)
  have first: "generateCreatorBrief exampleParse OpenAI (answeringSdk exampleText) (clockAt 0)
      ?i newService = (Inr exampleBrief, ?s1)"
    using u1 createCacheKey_nonempty [of exampleA]
    by (simp add: generateCreatorBrief_def tryBlock_def example_valid exampleA_any_caller
        generateCompletionWithCache_def given_def isCacheValid_def isRateLimited_def
        requestsOf_def updateRateLimit_def completion_exampleText parse_exampleText
        newService_def clockAt_def Let_def briefFor_userId)
  have age: "atCacheCheck (clockAt 1000) - timestamp \<lparr> data = exampleText, timestamp = 0 \<rparr>
      < 3600000"
    by (simp add: clockAt_def)
  from caller_identity_shares_cache_entry [OF first, of None] obtain e where
    e: "cache ?s1 (createCacheKey (withDefaults ?i)) = Some e"
    and again: "\<And>p2 k2 clk2 caller2. atCacheCheck clk2 - timestamp e < 3600000 \<Longrightarrow>
        generateCreatorBrief exampleParse p2 k2 clk2 (?i\<lparr> userId := caller2 \<rparr>) ?s1
          = (Inr exampleBrief, ?s1)"
    by blast
  from e have "e = \<lparr> data = exampleText, timestamp = 0 \<rparr>"
    by (simp add: exampleA_any_caller)
  with age again [of "clockAt 1000" Anthropic "throwingSdk (ascii ''down'')" "Some (ascii ''u2'')"]
  have "generateCreatorBrief exampleParse Anthropic (throwingSdk (ascii ''down'')) (clockAt 1000)
        (briefFor (ascii ''Water bottle'') (ascii ''Runners'') (Some (ascii ''u2''))) ?s1
      = (Inr exampleBrief, ?s1)"
    by (simp add: briefFor_def)
  with first age show ?thesis by blast
qed

text \<open>
  C6. When the product description or the target audience is empty after trimming
  or too long, \<open>generateCreatorBrief\<close> fails with one of the four validation
  messages (behind the prefix the \<open>catch\<close> block adds), whatever the parser, the
  provider, the SDK, the clock and the service state are, and the state it leaves is
  the one it found: no completion was requested, the cache and the rate limiter are
  untouched.
\<close>

theorem validation_fails_fast:
  assumes "trim (productDescription i) = [] \<or> length (productDescription i) > 1000
           \<or> trim (targetAudience i) = [] \<or> length (targetAudience i) > 500"
  shows "\<exists>msg \<in> set validationMessages. \<forall>JSON_parse p k clk s.
           generateCreatorBrief JSON_parse p k clk i s
             = (Inl (ascii ''Failed to generate creator brief: '' @ msg), s)"
proof -
  from validateInputs_fails [OF assms] obtain msg
    where msg: "validateInputs (productDescription i) (targetAudience i) = Inl msg"
    by blast
  then have mem: "msg \<in> set validationMessages"
    by (rule validateInputs_Inl)
  have "generateCreatorBrief JSON_parse p k clk i s
          = (Inl (ascii ''Failed to generate creator brief: '' @ msg), s)"
    for JSON_parse p k clk s
    using msg validation_messages_pass_through [OF mem]
    by (simp add: generateCreatorBrief_def tryBlock_def)
  with mem show ?thesis by blast
qed

theorem validation_fails_fast_witness:
  "trim (productDescription (briefFor (ascii ''   '') (ascii ''Runners'') None)) = []
   \<and> generateCreatorBrief (\<lambda>text. None) OpenAI (answeringSdk (ascii ''{}'')) (clockAt 0)
        (briefFor (ascii ''   '') (ascii ''Runners'') None) newService
      = (Inl (ascii ''Failed to generate creator brief: Product description is required and cannot be empty''),
         newService)"
proof -
  have blank: "trim (productDescription (briefFor (ascii ''   '') (ascii ''Runners'') None)) = []"
    by (simp add: briefFor_def ascii_def trim_def trimStart_def trimEnd_def isWhiteSpace_def)
  then have "trim (productDescription (briefFor (ascii ''   '') (ascii ''Runners'') None)) = []
      \<or> length (productDescription (briefFor (ascii ''   '') (ascii ''Runners'') None)) > 1000
      \<or> trim (targetAudience (briefFor (ascii ''   '') (ascii ''Runners'') None)) = []
      \<or> length (targetAudience (briefFor (ascii ''   '') (ascii ''Runners'') None)) > 500"
    by blast
  from validation_fails_fast [OF this] obtain msg where
    run: "generateCreatorBrief (\<lambda>text. None) OpenAI (answeringSdk (ascii ''{}'')) (clockAt 0)
            (briefFor (ascii ''   '') (ascii ''Runners'') None) newService
          = (Inl (ascii ''Failed to generate creator brief: '' @ msg), newService)"
    by blast
  have "generateCreatorBrief (\<lambda>text. None) OpenAI (answeringSdk (ascii ''{}'')) (clockAt 0)
            (briefFor (ascii ''   '') (ascii ''Runners'') None) newService
          = (Inl (catchBlock (ascii ''Product description is required and cannot be empty'')),
             newService)"
    using blank by (simp add: generateCreatorBrief_def tryBlock_def validateInputs_def)
  moreover have "catchBlock (ascii ''Product description is required and cannot be empty'')
      = ascii ''Failed to generate creator brief: Product description is required and cannot be empty''"
    by (simp add: catchBlock_def ascii_def)
  ultimately show ?thesis using blank run by simp
qed

text \<open>
  C7, as stated: the stored sequence of a caller holds only timestamps within the
  trailing hour, older ones being pruned at each check. In \<open>twoHoursApart\<close> a
  caller is answered at time 0 and again two hours later. The second request's
  check filters a copy and stores nothing, so afterwards the sequence still holds
  the timestamp 0, which is outside the hour before that check.
\<close>

theorem old_timestamp_is_kept:
  "serve OpenAI (Some (ascii ''u1'')) twoHoursApart newService
     = ([(False, Inr (ascii ''first'')), (False, Inr (ascii ''first''))],
        newService\<lparr> rateLimiter := [ascii ''u1'' \<mapsto> [0, 7200000]], completions := 2 \<rparr>)
   \<and> requestsOf (snd (serve OpenAI (Some (ascii ''u1'')) twoHoursApart newService))
        (ascii ''u1'') = [0, 7200000]
   \<and> \<not> spec_withinWindow (snd (serve OpenAI (Some (ascii ''u1'')) twoHoursApart newService))
          (ascii ''u1'') 7200000"
proof -
  have run: "serve OpenAI (Some (ascii ''u1'')) twoHoursApart newService
     = ([(False, Inr (ascii ''first'')), (False, Inr (ascii ''first''))],
        newService\<lparr> rateLimiter := [ascii ''u1'' \<mapsto> [0, 7200000]], completions := 2 \<rparr>)"
    by (simp add: twoHoursApart_def generateCompletionWithCache_def completion_answered
        isCacheHit_def given_def isRateLimited_def requestsOf_def updateRateLimit_def
        newService_def clockAt_def Let_def)
       (simp add: ascii_def)
  show ?thesis
    unfolding run by (simp add: requestsOf_def spec_withinWindow_def)
qed

text \<open>
  C7, amended. The stored timestamp sequence of a caller is never pruned. A call of
  \<open>generateCompletionWithCache\<close> leaves every caller's sequence as it was, except
  that it appends the time of recording to the sequence of its own caller when that
  identity is non-empty, the call is neither a cache hit nor refused, and the
  provider answers. Only the count used for admission is restricted to the
  timestamps of the trailing hour.
\<close>

theorem timestamps_never_pruned:
  "requestsOf (snd (generateCompletionWithCache p k clk prompt cacheKey rateLimitKey s)) key
     = requestsOf s key
       @ (if rateLimitKey = Some key \<and> key \<noteq> [] \<and> \<not> isCacheHit s cacheKey clk
             \<and> \<not> isRateLimited s key (atRateCheck clk)
             \<and> answered (generateCompletion p k prompt)
          then [atRateRecord clk] else [])"
proof (cases "isCacheHit s cacheKey clk")
  case True
  then show ?thesis
    by (simp add: generateCompletionWithCache_def isCacheHit_def)
next
  case False
  note miss = this
  show ?thesis
  proof (cases "given rateLimitKey \<and> isRateLimited s (the rateLimitKey) (atRateCheck clk)")
    case True
    with miss show ?thesis
      by (auto simp: generateCompletionWithCache_def isCacheHit_def given_def
          split: option.splits)
  next
    case False
    with miss show ?thesis
      by (auto simp: generateCompletionWithCache_def isCacheHit_def given_def Let_def
          updateRateLimit_def requestsOf_def answered_def split: sum.splits option.splits)
  qed
qed

theorem timestamps_never_pruned_witness:
  "requestsOf (snd (generateCompletionWithCache OpenAI (answeringSdk (ascii ''first''))
       (clockAt 7200000) [] None (Some (ascii ''u1''))
       (newService\<lparr> rateLimiter := [ascii ''u1'' \<mapsto> [0]] \<rparr>))) (ascii ''u1'')
   = [0, 7200000]"
proof -
  have "ascii ''u1'' \<noteq> []" by (simp add: ascii_def)
  moreover have "\<not> isCacheHit (newService\<lparr> rateLimiter := [ascii ''u1'' \<mapsto> [0]] \<rparr>) None
      (clockAt 7200000)"
    by (simp add: isCacheHit_def given_def)
  moreover have "\<not> isRateLimited (newService\<lparr> rateLimiter := [ascii ''u1'' \<mapsto> [0]] \<rparr>)
      (ascii ''u1'') (atRateCheck (clockAt 7200000))"
    by (simp add: isRateLimited_def requestsOf_def)
  moreover have "answered (generateCompletion OpenAI (answeringSdk (ascii ''first'')) [])"
    by (simp add: completion_answered answered_def)
  moreover have "requestsOf (newService\<lparr> rateLimiter := [ascii ''u1'' \<mapsto> [0]] \<rparr>)
      (ascii ''u1'') = [0]"
    by (simp add: requestsOf_def)
  ultimately show ?thesis
    using timestamps_never_pruned [of OpenAI "answeringSdk (ascii ''first'')"
        "clockAt 7200000" "[]" None "Some (ascii ''u1'')"
        "newService\<lparr> rateLimiter := [ascii ''u1'' \<mapsto> [0]] \<rparr>" "ascii ''u1''"]
    by (simp add: clockAt_def)
qed







text \<open>
  C10. The raw completion is stored in the cache before it is parsed. When an
  invocation passes validation, is neither a cache hit nor rate limited, the
  provider answers, and the answer fails parsing or structural validation, then
  the invocation fails with that error as the \<open>catch\<close> block rethrows it, exactly
  one completion was requested, and the raw text is in the cache under the input's
  fingerprint. Every later invocation with the same fields, by any caller, that
  arrives less than one hour after the store fails with the same error and leaves
  the state as it was: no completion is requested again.
\<close>

theorem malformed_completion_is_cached:
  assumes "validateInputs (productDescription i) (targetAudience i) = Inr ()"
    and "\<not> isCacheHit s (Some (createCacheKey (withDefaults i))) clk"
    and "\<not> (given (userId i) \<and> isRateLimited s (the (userId i)) (atRateCheck clk))"
    and "generateCompletion p k (buildPrompt (withDefaults i)) = Inr raw"
    and "parseAndValidateResponse JSON_parse raw = Inl e"
  shows "\<exists>s1. generateCreatorBrief JSON_parse p k clk i s = (Inl (catchBlock e), s1)
           \<and> cache s1 (createCacheKey (withDefaults i))
               = Some \<lparr> data = raw, timestamp = atCacheStore clk \<rparr>
           \<and> completions s1 = completions s + 1
           \<and> (\<forall>p2 k2 clk2 caller2.
                 atCacheCheck clk2 - atCacheStore clk < 3600000 \<longrightarrow>
                 generateCreatorBrief JSON_parse p2 k2 clk2 (i\<lparr> userId := caller2 \<rparr>) s1
                   = (Inl (catchBlock e), s1))"
proof -
  from workflow_miss [OF assms(1-4)] obtain s1 where
    run: "tryBlock JSON_parse p k clk i s = (parseAndValidateResponse JSON_parse raw, s1)"
    and entry: "cache s1 (createCacheKey (withDefaults i))
                  = Some \<lparr> data = raw, timestamp = atCacheStore clk \<rparr>"
    and count: "completions s1 = completions s + 1"
    by blast
  from run assms(5) have first:
    "generateCreatorBrief JSON_parse p k clk i s = (Inl (catchBlock e), s1)"
    by (simp add: generateCreatorBrief_def)
  have "generateCreatorBrief JSON_parse p2 k2 clk2 (i\<lparr> userId := caller2 \<rparr>) s1
          = (Inl (catchBlock e), s1)"
    if "atCacheCheck clk2 - atCacheStore clk < 3600000" for p2 k2 clk2 caller2
  proof -
    from that have "atCacheCheck clk2
        - timestamp \<lparr> data = raw, timestamp = atCacheStore clk \<rparr> < 3600000"
      by simp
    from workflow_hit [OF assms(1) entry this] assms(5) show ?thesis
      by (simp add: generateCreatorBrief_def)
  qed
  with first entry count show ?thesis by blast
qed

theorem malformed_completion_is_cached_witness:
  "generateCreatorBrief exampleParse OpenAI (answeringSdk (ascii ''first'')) (clockAt 0)
     (briefFor (ascii ''Water bottle'') (ascii ''Runners'') (Some (ascii ''u1''))) newService
   = (Inl (ascii ''Failed to process AI response. Please try again.''),
      \<lparr> cache = [createCacheKey exampleA \<mapsto> \<lparr> data = ascii ''first'', timestamp = 0 \<rparr>],
        rateLimiter = [ascii ''u1'' \<mapsto> [0]], completions = 1 \<rparr>)
   \<and> generateCreatorBrief exampleParse OpenAI (answeringSdk exampleText) (clockAt 3599999)
        (briefFor (ascii ''Water bottle'') (ascii ''Runners'') (Some (ascii ''u1'')))
        \<lparr> cache = [createCacheKey exampleA \<mapsto> \<lparr> data = ascii ''first'', timestamp = 0 \<rparr>],
          rateLimiter = [ascii ''u1'' \<mapsto> [0]], completions = 1 \<rparr>
      = (Inl (ascii ''Failed to process AI response. Please try again.''),
         \<lparr> cache = [createCacheKey exampleA \<mapsto> \<lparr> data = ascii ''first'', timestamp = 0 \<rparr>],
           rateLimiter = [ascii ''u1'' \<mapsto> [0]], completions = 1 \<rparr>)"
proof -
  let ?i = "briefFor (ascii ''Water bottle'') (ascii ''Runners'') (Some (ascii ''u1''))"
  let ?s1 = "\<lparr> cache = [createCacheKey exampleA \<mapsto> \<lparr> data = ascii ''first'', timestamp = 0 \<rparr>],
        rateLimiter = [ascii ''u1'' \<mapsto> [0]], completions = 1 \<rparr>"
  have u1: "ascii ''u1'' \<noteq> []" by (simp add: ascii_def)
  have h1: "validateInputs (productDescription ?i) (targetAudience ?i) = Inr ()"
    by (rule example_valid)
  have h2: "\<not> isCacheHit newService (Some (createCacheKey (withDefaults ?i))) (clockAt 0)"
    by (simp add: isCacheHit_def isCacheValid_def newService_def)
  have h3: "\<not> (given (userId ?i)
      \<and> isRateLimited newService (the (userId ?i)) (atRateCheck (clockAt 0)))"
    by (simp add: isRateLimited_def requestsOf_def newService_def)
  have h4: "generateCompletion OpenAI (answeringSdk (ascii ''first''))
      (buildPrompt (withDefaults ?i)) = Inr (ascii ''first'')"
    by (rule completion_answered)
  have clean: "cleanResponse (ascii ''first'') = ascii ''first''"
    by (simp add: cleanResponse_def ascii_def trim_def trimStart_def trimEnd_def
        isWhiteSpace_def stripJsonFence_def stripTrailingFence_def stripLeadingFence_def
        fence_def suffix_def)
  from clean have h5: "parseAndValidateResponse exampleParse (ascii ''first'')
      = Inl (ascii ''Invalid JSON response from AI service'')"
    by (simp add: parseAndValidateResponse_def parse_first)
  have msg: "catchBlock (ascii ''Invalid JSON response from AI service'')
      = ascii ''Failed to process AI response. Please try again.''"
    by (simp add: catchBlock_def ascii_def)
  from malformed_completion_is_cached [OF h1 h2 h3 h4 h5] obtain s1 where
    first: "generateCreatorBrief exampleParse OpenAI (answeringSdk (ascii ''first''))
        (clockAt 0) ?i newService
        = (Inl (catchBlock (ascii ''Invalid JSON response from AI service'')), s1)"
    and again: "\<And>p2 k2 clk2 caller2.
        atCacheCheck clk2 - atCacheStore (clockAt 0) < 3600000 \<Longrightarrow>
        generateCreatorBrief exampleParse p2 k2 clk2 (?i\<lparr> userId := caller2 \<rparr>) s1
          = (Inl (catchBlock (ascii ''Invalid JSON response from AI service'')), s1)"
    by blast
  have direct: "generateCreatorBrief exampleParse OpenAI (answeringSdk (ascii ''first''))
        (clockAt 0) ?i newService
        = (Inl (catchBlock (ascii ''Invalid JSON response from AI service'')), ?s1)"
    using u1 createCacheKey_nonempty [of exampleA]
    by (simp add: generateCreatorBrief_def tryBlock_def example_valid exampleA_any_caller
        generateCompletionWithCache_def given_def isCacheValid_def isRateLimited_def
        requestsOf_def updateRateLimit_def completion_answered h5
        newService_def clockAt_def Let_def briefFor_userId)
  with first have s1: "s1 = ?s1" by simp
  have "atCacheCheck (clockAt 3599999) - atCacheStore (clockAt 0) < 3600000"
    by (simp add: clockAt_def)
  from again [OF this, of OpenAI "answeringSdk exampleText" "Some (ascii ''u1'')"]
  have "generateCreatorBrief exampleParse OpenAI (answeringSdk exampleText) (clockAt 3599999)
        ?i s1 = (Inl (catchBlock (ascii ''Invalid JSON response from AI service'')), s1)"
    by (simp add: briefFor_def)
  with first s1 msg show ?thesis by simp
qed

end
